theory Spec2Isabelle
  imports Main
begin

section \<open>Data model\<close>

text \<open>
  A Contentful field definition as \<^verbatim>\<open>generate-schema.js\<close> reads it: the keys
  \<^verbatim>\<open>id\<close>, \<^verbatim>\<open>type\<close>, \<^verbatim>\<open>required\<close>, \<^verbatim>\<open>disabled\<close>, \<^verbatim>\<open>omitted\<close>,
  \<^verbatim>\<open>linkType\<close> and \<^verbatim>\<open>items\<close>. The selectors \<open>field_id\<close> and \<open>field_type\<close> stand for
  \<^verbatim>\<open>field.id\<close> and \<^verbatim>\<open>field.type\<close>. A key that may be missing (\<^verbatim>\<open>linkType\<close>,
  \<^verbatim>\<open>items\<close>) is an option, \<open>None\<close> being JavaScript's \<^verbatim>\<open>undefined\<close>; the three flags are
  read for their truthiness only.
\<close>

datatype field =
  Field (field_id: string) (field_type: string) (required: bool) (disabled: bool)
        (omitted: bool) (linkType: "string option") (items: "field option")

text \<open>
  The value of an \<^verbatim>\<open>extensions\<close> key: the link directive \<^verbatim>\<open>{ by, from }\<close> (the asset's
  \<^verbatim>\<open>localFile\<close> has no \<^verbatim>\<open>by\<close>) or the empty object \<^verbatim>\<open>{}\<close>. An \<^verbatim>\<open>extensions\<close> object is
  the list of its keys with their values.
\<close>

datatype extValue = LinkDirective "string option" string | EmptyObject

type_synonym extensions = "(string \<times> extValue) list"

text \<open>
  The resolve functions of the source, by name: the closure returned by
  \<^verbatim>\<open>makeRichTextLinksResolver(nodeType, entityType)\<close> and \<^verbatim>\<open>resolve(source) { return source }\<close>.
\<close>

datatype resolver = RichTextLinksResolver string string | ReturnSource

text \<open>
  A schema field declaration \<^verbatim>\<open>{ type, extensions?, resolve? }\<close>; \<open>dtype\<close> is the key
  \<^verbatim>\<open>type\<close>. The descriptors returned by \<^verbatim>\<open>translateFieldType\<close> never have a \<^verbatim>\<open>resolve\<close> key.
\<close>

record fieldConfig =
  dtype :: string
  extensions :: "extensions option"
  resolve :: "resolver option"

text \<open>
  A thrown \<^verbatim>\<open>Error\<close>: its \<^verbatim>\<open>name\<close> (here \<open>error_name\<close>), its \<^verbatim>\<open>message\<close> and its \<^verbatim>\<open>stack\<close>.
  The engine captures the frames when the error is created and formats the stack the first
  time the property is read, from the name and the message the error has at that moment;
  \<open>None\<close> is a stack that has not been read yet. Of the formatted stack only the header line
  is kept (the frames below it are left out). The \<^verbatim>\<open>TypeError\<close>s raised by the engine
  itself (calling \<^verbatim>\<open>undefined\<close>, reading a property of \<^verbatim>\<open>undefined\<close>) carry the engine's
  message.
\<close>

record error =
  error_name :: string
  message :: string
  stack :: "string option"

definition typeError :: "string \<Rightarrow> error" where
  "typeError msg = \<lparr>error_name = ''TypeError'', message = msg, stack = None\<rparr>"

text \<open>\<^verbatim>\<open>Error.prototype.toString\<close>, the header line of a formatted stack.\<close>

definition errorToString :: "error \<Rightarrow> string" where
  "errorToString err =
    (if error_name err = [] then message err
     else if message err = [] then error_name err
     else error_name err @ '': '' @ message err)"

text \<open>Reading \<^verbatim>\<open>err.stack\<close>: the value read, and the error with its stack formatted.\<close>

definition readStack :: "error \<Rightarrow> string \<times> error" where
  "readStack err =
    (case stack err of
       Some s \<Rightarrow> (s, err)
     | None \<Rightarrow> (errorToString err, err\<lparr>stack := Some (errorToString err)\<rparr>))"

text \<open>What a template literal prints for a value that may be \<^verbatim>\<open>undefined\<close>.\<close>

fun templateString :: "string option \<Rightarrow> string" where
  "templateString None = ''undefined''"
| "templateString (Some s) = s"

section \<open>Type dispatch table\<close>

text \<open>
  \<^verbatim>\<open>ContentfulDataTypes\<close>, a \<^verbatim>\<open>Map\<close> from the name of a primitive field type to a function
  from the field to its descriptor; \<^verbatim>\<open>ContentfulDataTypes.get\<close> is \<open>map_of\<close>.
\<close>

definition ContentfulDataTypes :: "(string \<times> (field \<Rightarrow> fieldConfig)) list" where
  "ContentfulDataTypes =
    [(''Symbol'', \<lambda>_. \<lparr>dtype = ''String'', extensions = None, resolve = None\<rparr>),
     (''Text'', \<lambda>field. \<lparr>dtype = ''ContentfulText'',
         extensions = Some [(''link'', LinkDirective (Some ''id'') (field_id field @ ''___NODE''))],
         resolve = None\<rparr>),
     (''Integer'', \<lambda>_. \<lparr>dtype = ''Int'', extensions = None, resolve = None\<rparr>),
     (''Number'', \<lambda>_. \<lparr>dtype = ''Float'', extensions = None, resolve = None\<rparr>),
     (''Date'', \<lambda>_. \<lparr>dtype = ''Date'', extensions = Some [(''dateformat'', EmptyObject)],
         resolve = None\<rparr>),
     (''Object'', \<lambda>_. \<lparr>dtype = ''JSON'', extensions = None, resolve = None\<rparr>),
     (''Boolean'', \<lambda>_. \<lparr>dtype = ''Boolean'', extensions = None, resolve = None\<rparr>),
     (''Location'', \<lambda>_. \<lparr>dtype = ''ContentfulLocation'', extensions = None, resolve = None\<rparr>),
     (''RichText'', \<lambda>_. \<lparr>dtype = ''ContentfulRichText'', extensions = None, resolve = None\<rparr>)]"

section \<open>Field translator\<close>

definition getLinkFieldType :: "string option \<Rightarrow> field \<Rightarrow> fieldConfig" where
  "getLinkFieldType lt field =
    \<lparr>dtype = ''Contentful'' @ templateString lt,
     extensions = Some [(''link'', LinkDirective (Some ''id'') (field_id field @ ''___NODE''))],
     resolve = None\<rparr>"

text \<open>The last step of \<^verbatim>\<open>translateFieldType\<close>: \<^verbatim>\<open>if (field.required) fieldType.type = `${fieldType.type}!`\<close>.\<close>

definition applyRequired :: "bool \<Rightarrow> fieldConfig \<Rightarrow> fieldConfig" where
  "applyRequired req fieldType = (if req then fieldType\<lparr>dtype := dtype fieldType @ ''!''\<rparr> else fieldType)"

text \<open>
  \<^verbatim>\<open>translateFieldType\<close>. It throws a \<^verbatim>\<open>TypeError\<close> in two places: reading
  \<^verbatim>\<open>field.items.type\<close> when an array field has no \<^verbatim>\<open>items\<close>, and calling the result of
  \<^verbatim>\<open>ContentfulDataTypes.get(field.type)\<close> when the table has no such key. An error of the
  recursive call leaves the function at once.
\<close>

fun translateFieldType :: "field \<Rightarrow> error + fieldConfig" where
  "translateFieldType (Field fid ty req dis om lt its) =
    (if ty = ''Array'' then
       (case its of
          None \<Rightarrow> Inl (typeError ''Cannot read properties of undefined (reading 'type')'')
        | Some it \<Rightarrow>
            (case (if field_type it = ''Link''
                   then Inr (getLinkFieldType (linkType it) (Field fid ty req dis om lt its))
                   else translateFieldType it) of
               Inl err \<Rightarrow> Inl err
             | Inr fieldData \<Rightarrow>
                 Inr (applyRequired req (fieldData\<lparr>dtype := ''['' @ dtype fieldData @ '']''\<rparr>))))
     else if ty = ''Link'' then
       Inr (applyRequired req (getLinkFieldType lt (Field fid ty req dis om lt its)))
     else
       (case map_of ContentfulDataTypes ty of
          None \<Rightarrow> Inl (typeError ''ContentfulDataTypes.get(...) is not a function'')
        | Some mk \<Rightarrow> Inr (applyRequired req (mk (Field fid ty req dis om lt its)))))"

section \<open>Schema assembler\<close>

subsection \<open>Type declarations\<close>

text \<open>
  A type declaration handed to \<^verbatim>\<open>createTypes\<close>: the argument of \<^verbatim>\<open>schema.buildObjectType\<close>,
  \<^verbatim>\<open>{ name, fields, interfaces?, extensions? }\<close>, or one of the four declarations written in
  the schema definition language, read into the same shape (\<^verbatim>\<open>implements\<close> gives the
  interfaces, a directive \<^verbatim>\<open>@dontInfer\<close> or \<^verbatim>\<open>@link(...)\<close> the extension of the same name).
  \<open>type_name\<close>, \<open>type_fields\<close> and \<open>type_extensions\<close> are the keys \<^verbatim>\<open>name\<close>, \<^verbatim>\<open>fields\<close>
  and \<^verbatim>\<open>extensions\<close>. A field map is a JavaScript object used as a dictionary from
  property names to field declarations.
\<close>

datatype typeKind = InterfaceType | ObjectType

record typeDef =
  kind :: typeKind
  type_name :: string
  type_fields :: "string \<rightharpoonup> fieldConfig"
  interfaces :: "string list option"
  type_extensions :: "extensions option"

abbreviation typeOnly :: "string \<Rightarrow> fieldConfig" where
  "typeOnly t \<equiv> \<lparr>dtype = t, extensions = None, resolve = None\<rparr>"

definition dontInfer :: "typeDef \<Rightarrow> bool" where
  "dontInfer t = (case type_extensions t of None \<Rightarrow> False
                  | Some exts \<Rightarrow> map_of exts ''dontInfer'' \<noteq> None)"

text \<open>
  What \<^verbatim>\<open>generateSchema\<close> does to the world: the declarations that \<^verbatim>\<open>createTypes\<close> has
  accepted, in order, and the lines written by \<^verbatim>\<open>console.log\<close>.
\<close>

record state =
  registered :: "typeDef list"
  console :: "string list"

subsection \<open>Collaborators outside this file\<close>

text \<open>
  An argument declaration of the \<^verbatim>\<open>gatsbyImageData\<close> field; the two imported enum types
  \<^verbatim>\<open>ImageResizingBehavior\<close> and \<^verbatim>\<open>ImageCropFocusType\<close> are referred to by name.
\<close>

datatype jsValue = JSBoolean bool | JSNumber int

record argConfig =
  arg_type :: string
  defaultValue :: "jsValue option"
  description :: "string option"

text \<open>
  The plugin configuration (\<^verbatim>\<open>pluginConfig.get\<close> of the two keys read here) and the
  functions this file only calls: \<^verbatim>\<open>makeTypeName\<close> (which may throw),
  \<^verbatim>\<open>getGatsbyImageFieldConfig\<close> applied to the argument declarations,
  \<^verbatim>\<open>addRemoteFilePolyfillInterface\<close>, whose result is spread into \<^verbatim>\<open>createTypes\<close>, and the
  two functions of the host. \<^verbatim>\<open>schema.buildObjectType\<close> either throws or returns the
  declaration of the configuration it is given; \<open>buildObjectTypeError\<close> is what it throws, if
  anything. \<^verbatim>\<open>createTypes\<close> either throws or accepts its arguments; \<open>createTypesError\<close> is
  what it throws, if anything, given the declarations accepted so far and its arguments.
\<close>

record env =
  downloadLocal :: bool
  useNameForId :: bool
  makeTypeName :: "string option \<Rightarrow> error + string"
  getGatsbyImageFieldConfig :: "(string \<times> argConfig) list \<Rightarrow> fieldConfig"
  addRemoteFilePolyfillInterface :: "typeDef \<Rightarrow> typeDef list"
  buildObjectTypeError :: "typeDef \<Rightarrow> error option"
  createTypesError :: "typeDef list \<Rightarrow> typeDef list \<Rightarrow> error option"

definition buildObjectType :: "env \<Rightarrow> typeDef \<Rightarrow> error + typeDef" where
  "buildObjectType env spec =
    (case buildObjectTypeError env spec of Some err \<Rightarrow> Inl err | None \<Rightarrow> Inr spec)"

definition createTypes :: "env \<Rightarrow> typeDef list \<Rightarrow> state \<Rightarrow> (error + unit) \<times> state" where
  "createTypes env types st =
    (case createTypesError env (registered st) types of
       Some err \<Rightarrow> (Inl err, st)
     | None \<Rightarrow> (Inr (), st\<lparr>registered := registered st @ types\<rparr>))"

subsection \<open>Generic types\<close>

definition ContentfulReference :: typeDef where
  "ContentfulReference =
    \<lparr>kind = InterfaceType, type_name = ''ContentfulReference'',
     type_fields = [''id'' \<mapsto> typeOnly ''ID!'', ''sys'' \<mapsto> typeOnly ''ContentfulSys!''],
     interfaces = Some [''Node''], type_extensions = None\<rparr>"

definition ContentfulContentType :: typeDef where
  "ContentfulContentType =
    \<lparr>kind = ObjectType, type_name = ''ContentfulContentType'',
     type_fields = [''id'' \<mapsto> typeOnly ''ID!'', ''name'' \<mapsto> typeOnly ''String!'',
                    ''displayField'' \<mapsto> typeOnly ''String!'',
                    ''description'' \<mapsto> typeOnly ''String!''],
     interfaces = Some [''Node''], type_extensions = None\<rparr>"

definition ContentfulSys :: typeDef where
  "ContentfulSys =
    \<lparr>kind = ObjectType, type_name = ''ContentfulSys'',
     type_fields = [''type'' \<mapsto> typeOnly ''String!'', ''id'' \<mapsto> typeOnly ''String!'',
                    ''spaceId'' \<mapsto> typeOnly ''String!'',
                    ''environmentId'' \<mapsto> typeOnly ''String!'',
                    ''contentType'' \<mapsto> \<lparr>dtype = ''ContentfulContentType'',
                       extensions = Some [(''link'', LinkDirective (Some ''id'') ''contentType___NODE'')],
                       resolve = None\<rparr>,
                    ''firstPublishedAt'' \<mapsto> typeOnly ''Date!'',
                    ''publishedAt'' \<mapsto> typeOnly ''Date!'',
                    ''publishedVersion'' \<mapsto> typeOnly ''Int!'',
                    ''locale'' \<mapsto> typeOnly ''String!''],
     interfaces = None, type_extensions = Some [(''dontInfer'', EmptyObject)]\<rparr>"

definition ContentfulEntry :: typeDef where
  "ContentfulEntry =
    \<lparr>kind = InterfaceType, type_name = ''ContentfulEntry'',
     type_fields = [''id'' \<mapsto> typeOnly ''ID!'', ''sys'' \<mapsto> typeOnly ''ContentfulSys!'',
                    ''metadata'' \<mapsto> typeOnly ''ContentfulMetadata!''],
     interfaces = Some [''ContentfulReference'', ''Node''],
     type_extensions = Some [(''dontInfer'', EmptyObject)]\<rparr>"

definition ContentfulMetadata :: typeDef where
  "ContentfulMetadata =
    \<lparr>kind = ObjectType, type_name = ''ContentfulMetadata'',
     type_fields = [''tags'' \<mapsto> \<lparr>dtype = ''[ContentfulTag]!'',
                       extensions = Some [(''link'', LinkDirective (Some ''id'') ''tags___NODE'')],
                       resolve = None\<rparr>],
     interfaces = None, type_extensions = Some [(''dontInfer'', EmptyObject)]\<rparr>"

definition ContentfulTag :: typeDef where
  "ContentfulTag =
    \<lparr>kind = ObjectType, type_name = ''ContentfulTag'',
     type_fields = [''name'' \<mapsto> typeOnly ''String!'', ''contentful_id'' \<mapsto> typeOnly ''String!'',
                    ''id'' \<mapsto> typeOnly ''ID!''],
     interfaces = Some [''Node''], type_extensions = Some [(''dontInfer'', EmptyObject)]\<rparr>"

subsection \<open>Assets\<close>

definition gatsbyImageDataArgs :: "(string \<times> argConfig) list" where
  "gatsbyImageDataArgs =
    [(''jpegProgressive'',
        \<lparr>arg_type = ''Boolean'', defaultValue = Some (JSBoolean True), description = None\<rparr>),
     (''resizingBehavior'',
        \<lparr>arg_type = ''ImageResizingBehavior'', defaultValue = None, description = None\<rparr>),
     (''cropFocus'',
        \<lparr>arg_type = ''ImageCropFocusType'', defaultValue = None, description = None\<rparr>),
     (''cornerRadius'',
        \<lparr>arg_type = ''Int'', defaultValue = Some (JSNumber 0),
         description = Some (''Desired corner radius in pixels. Results in an image with rounded corners.''
            @ [CHR 0x0A] @ ''Pass `-1` for a full circle/ellipse.'')\<rparr>),
     (''quality'',
        \<lparr>arg_type = ''Int'', defaultValue = Some (JSNumber 50), description = None\<rparr>)]"

definition ContentfulAsset :: "env \<Rightarrow> typeDef" where
  "ContentfulAsset env =
    \<lparr>kind = ObjectType, type_name = ''ContentfulAsset'',
     type_fields =
       [''contentful_id'' \<mapsto> typeOnly ''String!'', ''id'' \<mapsto> typeOnly ''ID!'',
        ''gatsbyImageData'' \<mapsto> getGatsbyImageFieldConfig env gatsbyImageDataArgs]
       ++ (if downloadLocal env
           then [''localFile'' \<mapsto> \<lparr>dtype = ''File'',
                    extensions = Some [(''link'', LinkDirective None ''fields.localFile'')],
                    resolve = None\<rparr>]
           else Map.empty)
       ++ [''sys'' \<mapsto> typeOnly ''ContentfulSys'', ''title'' \<mapsto> typeOnly ''String'',
           ''description'' \<mapsto> typeOnly ''String'', ''contentType'' \<mapsto> typeOnly ''String'',
           ''fileName'' \<mapsto> typeOnly ''String'', ''url'' \<mapsto> typeOnly ''String'',
           ''size'' \<mapsto> typeOnly ''Int'', ''width'' \<mapsto> typeOnly ''Int'',
           ''height'' \<mapsto> typeOnly ''Int'', ''metadata'' \<mapsto> typeOnly ''ContentfulMetadata!''],
     interfaces = Some [''ContentfulReference'', ''Node''], type_extensions = None\<rparr>"

subsection \<open>Rich text\<close>

text \<open>
  A node of the store, as far as the resolver reads it: \<^verbatim>\<open>node.internal.owner\<close> and
  \<^verbatim>\<open>node.sys\<close> with its \<^verbatim>\<open>id\<close> and \<^verbatim>\<open>type\<close>, each of which may be missing.
\<close>

record nodeSys =
  node_sys_id :: "string option"
  node_sys_type :: "string option"

record node =
  owner :: string
  sys :: "nodeSys option"

text \<open>
  The result of the external \<^verbatim>\<open>getRichTextEntityLinks(source, nodeType)\<close>: an object with the
  keys \<^verbatim>\<open>Asset\<close> and \<^verbatim>\<open>Entry\<close>, each a list of links of which the \<^verbatim>\<open>id\<close> is read. Indexing
  it with any other entity type gives \<^verbatim>\<open>undefined\<close>.
\<close>

record entityLink =
  link_id :: string

record entityLinks =
  Asset :: "entityLink list"
  Entry :: "entityLink list"

definition entityLinksOf :: "entityLinks \<Rightarrow> string \<Rightarrow> entityLink list option" where
  "entityLinksOf r entityType =
    (if entityType = ''Asset'' then Some (Asset r)
     else if entityType = ''Entry'' then Some (Entry r)
     else None)"

text \<open>
  \<^verbatim>\<open>makeRichTextLinksResolver(nodeType, entityType)\<close> applied to a source document, with the
  extractor and the result of \<^verbatim>\<open>context.nodeModel.getAllNodes()\<close> as arguments. The filter
  keeps a node when the conjunction is truthy; \<^verbatim>\<open>node?.sys?.id\<close> is truthy when the id is
  present and not the empty string.
\<close>

definition makeRichTextLinksResolver ::
    "('src \<Rightarrow> string \<Rightarrow> entityLinks) \<Rightarrow> string \<Rightarrow> string \<Rightarrow> 'src \<Rightarrow> node list \<Rightarrow> error + node list" where
  "makeRichTextLinksResolver getRichTextEntityLinks nodeType entityType source allNodes =
    (case entityLinksOf (getRichTextEntityLinks source nodeType) entityType of
       None \<Rightarrow> Inl (typeError ''Cannot read properties of undefined (reading 'map')'')
     | Some found \<Rightarrow>
         (let links = map link_id found in
          Inr (filter (\<lambda>node.
                 owner node = ''gatsby-source-contentful'' \<and>
                 (case sys node of
                    None \<Rightarrow> False
                  | Some s \<Rightarrow>
                      (case node_sys_id s of
                         None \<Rightarrow> False
                       | Some i \<Rightarrow> i \<noteq> [] \<and> node_sys_type s = Some entityType \<and> i \<in> set links)))
               allNodes)))"

text \<open>What a registered resolve function returns when the query engine runs it.\<close>

datatype 'src resolved = Nodes "node list" | Source 'src

definition runResolver ::
    "('src \<Rightarrow> string \<Rightarrow> entityLinks) \<Rightarrow> resolver \<Rightarrow> 'src \<Rightarrow> node list \<Rightarrow> error + 'src resolved" where
  "runResolver getRichTextEntityLinks r source allNodes =
    (case r of
       RichTextLinksResolver nodeType entityType \<Rightarrow>
         map_sum id Nodes
           (makeRichTextLinksResolver getRichTextEntityLinks nodeType entityType source allNodes)
     | ReturnSource \<Rightarrow> Inr (Source source))"

definition ContentfulRichTextAssets :: typeDef where
  "ContentfulRichTextAssets =
    \<lparr>kind = ObjectType, type_name = ''ContentfulRichTextAssets'',
     type_fields =
       [''block'' \<mapsto> \<lparr>dtype = ''[ContentfulAsset]!'', extensions = None,
           resolve = Some (RichTextLinksResolver ''embedded-asset-block'' ''Asset'')\<rparr>,
        ''hyperlink'' \<mapsto> \<lparr>dtype = ''[ContentfulAsset]!'', extensions = None,
           resolve = Some (RichTextLinksResolver ''asset-hyperlink'' ''Asset'')\<rparr>],
     interfaces = None, type_extensions = None\<rparr>"

definition ContentfulRichTextEntries :: typeDef where
  "ContentfulRichTextEntries =
    \<lparr>kind = ObjectType, type_name = ''ContentfulRichTextEntries'',
     type_fields =
       [''inline'' \<mapsto> \<lparr>dtype = ''[ContentfulEntry]!'', extensions = None,
           resolve = Some (RichTextLinksResolver ''embedded-entry-inline'' ''Entry'')\<rparr>,
        ''block'' \<mapsto> \<lparr>dtype = ''[ContentfulEntry]!'', extensions = None,
           resolve = Some (RichTextLinksResolver ''embedded-entry-block'' ''Entry'')\<rparr>,
        ''hyperlink'' \<mapsto> \<lparr>dtype = ''[ContentfulEntry]!'', extensions = None,
           resolve = Some (RichTextLinksResolver ''entry-hyperlink'' ''Entry'')\<rparr>],
     interfaces = None, type_extensions = None\<rparr>"

definition ContentfulRichTextLinks :: typeDef where
  "ContentfulRichTextLinks =
    \<lparr>kind = ObjectType, type_name = ''ContentfulRichTextLinks'',
     type_fields =
       [''assets'' \<mapsto> \<lparr>dtype = ''ContentfulRichTextAssets'', extensions = None,
           resolve = Some ReturnSource\<rparr>,
        ''entries'' \<mapsto> \<lparr>dtype = ''ContentfulRichTextEntries'', extensions = None,
           resolve = Some ReturnSource\<rparr>],
     interfaces = None, type_extensions = None\<rparr>"

definition ContentfulRichText :: typeDef where
  "ContentfulRichText =
    \<lparr>kind = ObjectType, type_name = ''ContentfulRichText'',
     type_fields =
       [''json'' \<mapsto> \<lparr>dtype = ''JSON'', extensions = None, resolve = Some ReturnSource\<rparr>,
        ''links'' \<mapsto> \<lparr>dtype = ''ContentfulRichTextLinks'', extensions = None,
           resolve = Some ReturnSource\<rparr>],
     interfaces = None, type_extensions = Some [(''dontInfer'', EmptyObject)]\<rparr>"

subsection \<open>Location and text\<close>

definition ContentfulLocation :: typeDef where
  "ContentfulLocation =
    \<lparr>kind = ObjectType, type_name = ''ContentfulLocation'',
     type_fields = [''lat'' \<mapsto> typeOnly ''Float!'', ''lon'' \<mapsto> typeOnly ''Float!''],
     interfaces = None, type_extensions = Some [(''dontInfer'', EmptyObject)]\<rparr>"

text \<open>The field \<^verbatim>\<open>raw\<close> is declared by its type name alone, \<^verbatim>\<open>raw: `String!`\<close>.\<close>

definition ContentfulText :: typeDef where
  "ContentfulText =
    \<lparr>kind = ObjectType, type_name = ''ContentfulText'',
     type_fields = [''raw'' \<mapsto> typeOnly ''String!''],
     interfaces = Some [''Node''], type_extensions = Some [(''dontInfer'', EmptyObject)]\<rparr>"

subsection \<open>Content types\<close>

text \<open>
  A content type of the model: \<^verbatim>\<open>name\<close> (which may be missing), \<^verbatim>\<open>sys.id\<close> and \<^verbatim>\<open>fields\<close>
  (here \<open>item_fields\<close>).
\<close>

record contentTypeItem =
  name :: "string option"
  sys_id :: string
  item_fields :: "field list"

text \<open>
  The \<^verbatim>\<open>forEach\<close> over the fields of a content type: a disabled or omitted field is skipped,
  any other is translated and assigned to \<^verbatim>\<open>fields[field.id]\<close>; the first error leaves the
  loop. The assignment sets or replaces the entry of that id, except for the id \<open>__proto__\<close>:
  on a plain object that assignment sets the prototype and creates no property, so the
  spread of \<^verbatim>\<open>fields\<close> into the object type, which copies own properties only, has no
  entry for it.
\<close>

fun translateFields :: "field list \<Rightarrow> (string \<rightharpoonup> fieldConfig) \<Rightarrow> error + (string \<rightharpoonup> fieldConfig)" where
  "translateFields [] acc = Inr acc"
| "translateFields (field # rest) acc =
    (if disabled field \<or> omitted field then translateFields rest acc
     else (case translateFieldType field of
             Inl err \<Rightarrow> Inl err
           | Inr fieldType \<Rightarrow>
               translateFields rest
                 (if field_id field = ''__proto__'' then acc
                  else acc(field_id field \<mapsto> fieldType))))"

text \<open>The fields of a content type that the loop does not skip.\<close>

abbreviation schemaFields :: "contentTypeItem \<Rightarrow> field list" where
  "schemaFields contentTypeItem \<equiv>
    filter (\<lambda>f. \<not> disabled f \<and> \<not> omitted f) (item_fields contentTypeItem)"

definition fixedFields :: "string \<rightharpoonup> fieldConfig" where
  "fixedFields = [''id'' \<mapsto> typeOnly ''ID!'', ''sys'' \<mapsto> typeOnly ''ContentfulSys!'',
                  ''metadata'' \<mapsto> typeOnly ''ContentfulMetadata!'']"

text \<open>
  The argument of \<^verbatim>\<open>createTypes\<close> in the \<^verbatim>\<open>try\<close> block: the field map, the type name, and
  \<^verbatim>\<open>schema.buildObjectType\<close> of the three fixed fields followed by the spread of the
  translated ones.
\<close>

definition buildContentType :: "env \<Rightarrow> contentTypeItem \<Rightarrow> error + typeDef" where
  "buildContentType env contentTypeItem =
    (case translateFields (item_fields contentTypeItem) Map.empty of
       Inl err \<Rightarrow> Inl err
     | Inr fs \<Rightarrow>
         (case makeTypeName env (if useNameForId env then name contentTypeItem
                                 else Some (sys_id contentTypeItem)) of
            Inl err \<Rightarrow> Inl err
          | Inr n \<Rightarrow>
              buildObjectType env
                \<lparr>kind = ObjectType, type_name = n, type_fields = fixedFields ++ fs,
                 interfaces = Some [''ContentfulReference'', ''ContentfulEntry'', ''Node''],
                 type_extensions = Some [(''dontInfer'', EmptyObject)]\<rparr>))"

text \<open>The \<^verbatim>\<open>try\<close> block: the object type is built and passed to \<^verbatim>\<open>createTypes\<close>.\<close>

definition tryContentType :: "env \<Rightarrow> contentTypeItem \<Rightarrow> state \<Rightarrow> (error + unit) \<times> state" where
  "tryContentType env contentTypeItem st =
    (case buildContentType env contentTypeItem of
       Inl err \<Rightarrow> (Inl err, st)
     | Inr t \<Rightarrow> createTypes env [t] st)"

text \<open>
  The \<^verbatim>\<open>catch\<close> block: \<^verbatim>\<open>contentTypeItem.name || contentTypeItem.sys.id\<close> takes the name unless
  it is missing or empty; the message is rewritten, then \<^verbatim>\<open>err.stack\<close> is read and logged,
  and the error is thrown again.
\<close>

definition displayName :: "contentTypeItem \<Rightarrow> string" where
  "displayName contentTypeItem =
    (case name contentTypeItem of
       None \<Rightarrow> sys_id contentTypeItem
     | Some n \<Rightarrow> if n = [] then sys_id contentTypeItem else n)"

definition annotate :: "contentTypeItem \<Rightarrow> error \<Rightarrow> error" where
  "annotate contentTypeItem err =
    err\<lparr>message := ''Unable to create schema for Contentful Content Type ''
           @ displayName contentTypeItem @ '':'' @ [CHR 0x0A] @ message err\<rparr>"

definition catchContentType :: "contentTypeItem \<Rightarrow> error \<Rightarrow> state \<Rightarrow> (error + unit) \<times> state" where
  "catchContentType contentTypeItem err st =
    (case readStack (annotate contentTypeItem err) of
       (line, err') \<Rightarrow> (Inl err', st\<lparr>console := console st @ [line]\<rparr>))"

fun contentTypesLoop :: "env \<Rightarrow> contentTypeItem list \<Rightarrow> state \<Rightarrow> (error + unit) \<times> state" where
  "contentTypesLoop env [] st = (Inr (), st)"
| "contentTypesLoop env (contentTypeItem # rest) st =
    (case tryContentType env contentTypeItem st of
       (Inl err, st') \<Rightarrow> catchContentType contentTypeItem err st'
     | (Inr u, st') \<Rightarrow> contentTypesLoop env rest st')"

subsection \<open>generateSchema\<close>

text \<open>
  The statements that precede the loop, in order: \<^verbatim>\<open>createTypes\<close> of a declaration written
  in the schema definition language, of \<^verbatim>\<open>schema.buildObjectType(...)\<close>, or of the spread
  of \<^verbatim>\<open>addRemoteFilePolyfillInterface(schema.buildObjectType(...), ...)\<close>. An error of a host
  function leaves \<^verbatim>\<open>generateSchema\<close> as it is.
\<close>

datatype statement =
  CreateTypes typeDef
| CreateObjectType typeDef
| CreatePolyfilledObjectType typeDef

fun run :: "env \<Rightarrow> statement \<Rightarrow> state \<Rightarrow> (error + unit) \<times> state" where
  "run env (CreateTypes t) st = createTypes env [t] st"
| "run env (CreateObjectType spec) st =
    (case buildObjectType env spec of
       Inl err \<Rightarrow> (Inl err, st)
     | Inr t \<Rightarrow> createTypes env [t] st)"
| "run env (CreatePolyfilledObjectType spec) st =
    (case buildObjectType env spec of
       Inl err \<Rightarrow> (Inl err, st)
     | Inr t \<Rightarrow> createTypes env (addRemoteFilePolyfillInterface env t) st)"

fun runAll :: "env \<Rightarrow> statement list \<Rightarrow> state \<Rightarrow> (error + unit) \<times> state" where
  "runAll env [] st = (Inr (), st)"
| "runAll env (s # rest) st =
    (case run env s st of
       (Inl err, st') \<Rightarrow> (Inl err, st')
     | (Inr u, st') \<Rightarrow> runAll env rest st')"

definition fixedStatements :: "env \<Rightarrow> statement list" where
  "fixedStatements env =
    [CreateTypes ContentfulReference, CreateTypes ContentfulContentType,
     CreateTypes ContentfulSys, CreateTypes ContentfulEntry,
     CreateObjectType ContentfulMetadata, CreateObjectType ContentfulTag,
     CreatePolyfilledObjectType (ContentfulAsset env),
     CreateObjectType ContentfulRichTextAssets, CreateObjectType ContentfulRichTextEntries,
     CreateObjectType ContentfulRichTextLinks, CreateObjectType ContentfulRichText,
     CreateObjectType ContentfulLocation, CreateObjectType ContentfulText]"

text \<open>The declarations that a statement registers when it does not throw.\<close>

fun declared :: "env \<Rightarrow> statement \<Rightarrow> typeDef list" where
  "declared env (CreateTypes t) = [t]"
| "declared env (CreateObjectType spec) = [spec]"
| "declared env (CreatePolyfilledObjectType spec) = addRemoteFilePolyfillInterface env spec"

text \<open>The declarations that the statements before the loop register when none of them throws.\<close>

definition fixedTypes :: "env \<Rightarrow> typeDef list" where
  "fixedTypes env =
    [ContentfulReference, ContentfulContentType, ContentfulSys, ContentfulEntry,
     ContentfulMetadata, ContentfulTag]
    @ addRemoteFilePolyfillInterface env (ContentfulAsset env)
    @ [ContentfulRichTextAssets, ContentfulRichTextEntries, ContentfulRichTextLinks,
       ContentfulRichText, ContentfulLocation, ContentfulText]"

definition generateSchema :: "env \<Rightarrow> contentTypeItem list \<Rightarrow> state \<Rightarrow> (error + unit) \<times> state" where
  "generateSchema env contentTypeItems st =
    (case runAll env (fixedStatements env) st of
       (Inl err, st') \<Rightarrow> (Inl err, st')
     | (Inr u, st') \<Rightarrow> contentTypesLoop env contentTypeItems st')"

section \<open>Sample inputs\<close>

text \<open>
  Concrete inputs on which the assembler and the resolver are evaluated below: stand-ins for
  the imported functions with a host that accepts everything, the same with a host whose
  \<^verbatim>\<open>createTypes\<close> rejects one type name, four content types (one with a field of an unknown
  type, one with a field named \<open>__proto__\<close>), a node store and two extractors.
\<close>

definition sampleEnv :: env where
  "sampleEnv =
    \<lparr>downloadLocal = False, useNameForId = False,
     makeTypeName = (\<lambda>t. Inr (''ContentfulContentType'' @ templateString t)),
     getGatsbyImageFieldConfig = (\<lambda>args. typeOnly ''GatsbyImageData''),
     addRemoteFilePolyfillInterface = (\<lambda>t. [t]),
     buildObjectTypeError = (\<lambda>spec. None),
     createTypesError = (\<lambda>accepted types. None)\<rparr>"

definition sampleProto :: contentTypeItem where
  "sampleProto =
    \<lparr>name = Some ''Proto'', sys_id = ''proto'',
     item_fields =
       [Field ''title'' ''Symbol'' True False False None None,
        Field ''__proto__'' ''Symbol'' False False False None None]\<rparr>"

definition rejectingEnv :: env where
  "rejectingEnv =
    sampleEnv\<lparr>createTypesError :=
      (\<lambda>accepted types.
         if map type_name types = [''ContentfulContentTypeblogPost'']
         then Some \<lparr>error_name = ''Error'', message = ''Type is already defined'', stack = None\<rparr>
         else None)\<rparr>"

definition samplePost :: contentTypeItem where
  "samplePost =
    \<lparr>name = Some ''Blog Post'', sys_id = ''blogPost'',
     item_fields =
       [Field ''title'' ''Symbol'' True False False None None,
        Field ''draft'' ''Boolean'' False True False None None,
        Field ''id'' ''Integer'' False False False None None]\<rparr>"

definition samplePage :: contentTypeItem where
  "samplePage =
    \<lparr>name = Some ''Page'', sys_id = ''page'',
     item_fields =
       [Field ''title'' ''Symbol'' True False False None None,
        Field ''draft'' ''Boolean'' False True False None None,
        Field ''legacy'' ''Text'' False False True None None,
        Field ''hero'' ''Link'' False False False (Some ''Asset'') None]\<rparr>"

definition sampleWidget :: contentTypeItem where
  "sampleWidget =
    \<lparr>name = None, sys_id = ''widget'',
     item_fields = [Field ''shape'' ''Geometry'' False False False None None]\<rparr>"

definition sampleStore :: "node list" where
  "sampleStore =
    [\<lparr>owner = ''gatsby-source-contentful'',
      sys = Some \<lparr>node_sys_id = Some ''a1'', node_sys_type = Some ''Asset''\<rparr>\<rparr>,
     \<lparr>owner = ''gatsby-source-filesystem'',
      sys = Some \<lparr>node_sys_id = Some ''a1'', node_sys_type = Some ''Asset''\<rparr>\<rparr>,
     \<lparr>owner = ''gatsby-source-contentful'',
      sys = Some \<lparr>node_sys_id = Some ''e1'', node_sys_type = Some ''Entry''\<rparr>\<rparr>,
     \<lparr>owner = ''gatsby-source-contentful'',
      sys = Some \<lparr>node_sys_id = Some ''a2'', node_sys_type = Some ''Asset''\<rparr>\<rparr>,
     \<lparr>owner = ''gatsby-source-contentful'', sys = None\<rparr>]"

definition sampleLinks :: "unit \<Rightarrow> string \<Rightarrow> entityLinks" where
  "sampleLinks source nodeType =
    (if nodeType = ''embedded-asset-block''
     then \<lparr>Asset = [\<lparr>link_id = ''a1''\<rparr>], Entry = [\<lparr>link_id = ''e1''\<rparr>]\<rparr>
     else \<lparr>Asset = [], Entry = []\<rparr>)"

definition emptyIdLinks :: "unit \<Rightarrow> string \<Rightarrow> entityLinks" where
  "emptyIdLinks source nodeType = \<lparr>Asset = [\<lparr>link_id = ''''\<rparr>], Entry = []\<rparr>"

definition emptyIdAsset :: node where
  "emptyIdAsset =
    \<lparr>owner = ''gatsby-source-contentful'',
     sys = Some \<lparr>node_sys_id = Some '''', node_sys_type = Some ''Asset''\<rparr>\<rparr>"

section \<open>Properties of the field translator\<close>

lemma ContentfulDataTypes_keys:
  "map fst ContentfulDataTypes =
    [''Symbol'', ''Text'', ''Integer'', ''Number'', ''Date'', ''Object'', ''Boolean'',
     ''Location'', ''RichText'']"
  by (simp add: ContentfulDataTypes_def)

lemma translateFieldType_required_last:
  "translateFieldType (Field fid ty True dis om lt its) =
     map_sum id (\<lambda>d. d\<lparr>dtype := dtype d @ ''!''\<rparr>)
       (translateFieldType (Field fid ty False dis om lt its))"
  by (auto simp add: applyRequired_def getLinkFieldType_def ContentfulDataTypes_def
      split: option.splits sum.splits if_splits)

text \<open>
  C1. A required array field: the list brackets go around the type of the element
  descriptor, which is computed from \<^verbatim>\<open>field.items\<close> (and, for links, the outer field's id)
  without reading the outer \<^verbatim>\<open>required\<close> flag, and the \<open>!\<close> is appended once, after the
  closing bracket. (A \<^verbatim>\<open>required\<close> flag of \<^verbatim>\<open>items\<close> itself belongs to the recursive call.) Whatever the translation of the same field with \<^verbatim>\<open>required\<close> false is, the
  required field yields it with one \<open>!\<close> at the end of the type string (or the same error).
  A required array of symbols has the type string \<open>[String]!\<close>.
\<close>

theorem translateFieldType_required_array:
  "(\<forall>it e. its = Some it \<longrightarrow> field_type it \<noteq> ''Link'' \<longrightarrow> translateFieldType it = Inr e \<longrightarrow>
      translateFieldType (Field fid ''Array'' True dis om lt its) =
        Inr (e\<lparr>dtype := ''['' @ dtype e @ '']!''\<rparr>))
   \<and> (\<forall>it. its = Some it \<longrightarrow> field_type it = ''Link'' \<longrightarrow>
      translateFieldType (Field fid ''Array'' True dis om lt its) =
        Inr ((getLinkFieldType (linkType it) (Field fid ''Array'' True dis om lt its))
               \<lparr>dtype := ''[Contentful'' @ templateString (linkType it) @ '']!''\<rparr>))
   \<and> translateFieldType (Field fid ''Array'' True dis om lt its) =
        map_sum id (\<lambda>d. d\<lparr>dtype := dtype d @ ''!''\<rparr>)
          (translateFieldType (Field fid ''Array'' False dis om lt its))
   \<and> translateFieldType (Field fid ''Array'' True dis om lt
        (Some (Field fid' ''Symbol'' False dis' om' lt' its'))) =
        Inr \<lparr>dtype = ''[String]!'', extensions = None, resolve = None\<rparr>"
proof (intro conjI allI impI)
  fix it e
  assume "its = Some it" "field_type it \<noteq> ''Link''" "translateFieldType it = Inr e"
  then show "translateFieldType (Field fid ''Array'' True dis om lt its) =
      Inr (e\<lparr>dtype := ''['' @ dtype e @ '']!''\<rparr>)"
    by (simp add: applyRequired_def)
next
  fix it
  assume "its = Some it" "field_type it = ''Link''"
  then show "translateFieldType (Field fid ''Array'' True dis om lt its) =
      Inr ((getLinkFieldType (linkType it) (Field fid ''Array'' True dis om lt its))
             \<lparr>dtype := ''[Contentful'' @ templateString (linkType it) @ '']!''\<rparr>)"
    by (simp add: applyRequired_def getLinkFieldType_def)
next
  show "translateFieldType (Field fid ''Array'' True dis om lt its) =
      map_sum id (\<lambda>d. d\<lparr>dtype := dtype d @ ''!''\<rparr>)
        (translateFieldType (Field fid ''Array'' False dis om lt its))"
    by (rule translateFieldType_required_last)
next
  show "translateFieldType (Field fid ''Array'' True dis om lt
      (Some (Field fid' ''Symbol'' False dis' om' lt' its'))) =
      Inr \<lparr>dtype = ''[String]!'', extensions = None, resolve = None\<rparr>"
    by (simp add: applyRequired_def ContentfulDataTypes_def)
qed

theorem translateFieldType_required_array_witness:
  "field_type (Field ''tag'' ''Integer'' False False False None None) \<noteq> ''Link''
   \<and> translateFieldType (Field ''tag'' ''Integer'' False False False None None) =
       Inr \<lparr>dtype = ''Int'', extensions = None, resolve = None\<rparr>
   \<and> translateFieldType (Field ''tags'' ''Array'' True False False None
        (Some (Field ''tag'' ''Integer'' False False False None None))) =
       Inr \<lparr>dtype = ''[Int]!'', extensions = None, resolve = None\<rparr>
   \<and> translateFieldType (Field ''tags'' ''Array'' False False False None
        (Some (Field ''tag'' ''Integer'' False False False None None))) =
       Inr \<lparr>dtype = ''[Int]'', extensions = None, resolve = None\<rparr>"
  using translateFieldType_required_array
    [of "Some (Field ''tag'' ''Integer'' False False False None None)" "''tags''" False False None]
  by (simp add: applyRequired_def ContentfulDataTypes_def)

text \<open>
  C2. An array field whose \<^verbatim>\<open>items.type\<close> is \<open>Link\<close>: the descriptor is built from
  \<^verbatim>\<open>items.linkType\<close> and the id of the outer field, the type string is put in list brackets
  (followed by \<open>!\<close> when the field is required) and the link extension is kept. The field
  \<open>cover\<close>, an optional array of asset links, yields \<open>[ContentfulAsset]\<close> linked by id from
  \<open>cover___NODE\<close>.
\<close>

theorem translateFieldType_array_of_links:
  "(field_type it = ''Link'' \<longrightarrow>
      translateFieldType (Field fid ''Array'' req dis om lt (Some it)) =
        Inr \<lparr>dtype = ''[Contentful'' @ templateString (linkType it) @ '']''
                    @ (if req then ''!'' else []),
             extensions = Some [(''link'', LinkDirective (Some ''id'') (fid @ ''___NODE''))],
             resolve = None\<rparr>)
   \<and> translateFieldType (Field ''cover'' ''Array'' False dis om lt
        (Some (Field fid' ''Link'' req' dis' om' (Some ''Asset'') its'))) =
        Inr \<lparr>dtype = ''[ContentfulAsset]'',
             extensions = Some [(''link'', LinkDirective (Some ''id'') ''cover___NODE'')],
             resolve = None\<rparr>"
  by (simp add: applyRequired_def getLinkFieldType_def)

theorem translateFieldType_array_of_links_witness:
  "field_type (Field ''entry'' ''Link'' False False False (Some ''Entry'') None) = ''Link''
   \<and> translateFieldType (Field ''related'' ''Array'' True False False None
        (Some (Field ''entry'' ''Link'' False False False (Some ''Entry'') None))) =
        Inr \<lparr>dtype = ''[ContentfulEntry]!'',
             extensions = Some [(''link'', LinkDirective (Some ''id'') ''related___NODE'')],
             resolve = None\<rparr>"
  using translateFieldType_array_of_links
    [of "Field ''entry'' ''Link'' False False False (Some ''Entry'') None" "''related''" True
        False False None]
  by simp

text \<open>
  C3. A field of type \<open>Link\<close>: the descriptor has the type \<open>Contentful\<close> followed by the link
  type (as a template literal prints it), with \<open>!\<close> appended exactly when the field is
  required, and the extension
  \<^verbatim>\<open>link: { by: "id", from: "<field.id>___NODE" }\<close>. A required link to an entry with the id
  \<open>author\<close> yields \<open>ContentfulEntry!\<close> linked from \<open>author___NODE\<close>.
\<close>

theorem translateFieldType_link:
  "translateFieldType (Field fid ''Link'' req dis om lt its) =
      Inr \<lparr>dtype = ''Contentful'' @ templateString lt @ (if req then ''!'' else []),
           extensions = Some [(''link'', LinkDirective (Some ''id'') (fid @ ''___NODE''))],
           resolve = None\<rparr>
   \<and> templateString (Some l) = l
   \<and> translateFieldType (Field ''author'' ''Link'' True dis om (Some ''Entry'') its) =
      Inr \<lparr>dtype = ''ContentfulEntry!'',
           extensions = Some [(''link'', LinkDirective (Some ''id'') ''author___NODE'')],
           resolve = None\<rparr>"
  by (simp add: applyRequired_def getLinkFieldType_def)

theorem translateFieldType_link_witness:
  "translateFieldType (Field ''hero'' ''Link'' False False False (Some ''Asset'') None) =
      Inr \<lparr>dtype = ''ContentfulAsset'',
           extensions = Some [(''link'', LinkDirective (Some ''id'') ''hero___NODE'')],
           resolve = None\<rparr>"
  using translateFieldType_link [of "''hero''" False False False "Some ''Asset''" None]
  by simp

text \<open>
  C4. A field whose type is one of the nine keys of the dispatch table is neither an array nor
  a link, and its descriptor is the one registered for the key: the listed type name, the
  link extension for \<open>Text\<close>, the empty \<open>dateformat\<close> extension for \<open>Date\<close> and no extension
  otherwise. When the field is required, one \<open>!\<close> follows the type name; otherwise none.
\<close>

theorem translateFieldType_primitive:
  "translateFieldType (Field fid ''Symbol'' req dis om lt its) =
      Inr \<lparr>dtype = ''String'' @ (if req then ''!'' else []), extensions = None, resolve = None\<rparr>
   \<and> translateFieldType (Field fid ''Text'' req dis om lt its) =
      Inr \<lparr>dtype = ''ContentfulText'' @ (if req then ''!'' else []),
           extensions = Some [(''link'', LinkDirective (Some ''id'') (fid @ ''___NODE''))],
           resolve = None\<rparr>
   \<and> translateFieldType (Field fid ''Integer'' req dis om lt its) =
      Inr \<lparr>dtype = ''Int'' @ (if req then ''!'' else []), extensions = None, resolve = None\<rparr>
   \<and> translateFieldType (Field fid ''Number'' req dis om lt its) =
      Inr \<lparr>dtype = ''Float'' @ (if req then ''!'' else []), extensions = None, resolve = None\<rparr>
   \<and> translateFieldType (Field fid ''Date'' req dis om lt its) =
      Inr \<lparr>dtype = ''Date'' @ (if req then ''!'' else []),
           extensions = Some [(''dateformat'', EmptyObject)], resolve = None\<rparr>
   \<and> translateFieldType (Field fid ''Object'' req dis om lt its) =
      Inr \<lparr>dtype = ''JSON'' @ (if req then ''!'' else []), extensions = None, resolve = None\<rparr>
   \<and> translateFieldType (Field fid ''Boolean'' req dis om lt its) =
      Inr \<lparr>dtype = ''Boolean'' @ (if req then ''!'' else []), extensions = None, resolve = None\<rparr>
   \<and> translateFieldType (Field fid ''Location'' req dis om lt its) =
      Inr \<lparr>dtype = ''ContentfulLocation'' @ (if req then ''!'' else []), extensions = None,
           resolve = None\<rparr>
   \<and> translateFieldType (Field fid ''RichText'' req dis om lt its) =
      Inr \<lparr>dtype = ''ContentfulRichText'' @ (if req then ''!'' else []), extensions = None,
           resolve = None\<rparr>
   \<and> map fst ContentfulDataTypes =
      [''Symbol'', ''Text'', ''Integer'', ''Number'', ''Date'', ''Object'', ''Boolean'',
       ''Location'', ''RichText'']"
  by (simp add: applyRequired_def ContentfulDataTypes_def)

theorem translateFieldType_primitive_witness:
  "translateFieldType (Field ''body'' ''Text'' True False False None None) =
      Inr \<lparr>dtype = ''ContentfulText!'',
           extensions = Some [(''link'', LinkDirective (Some ''id'') ''body___NODE'')],
           resolve = None\<rparr>
   \<and> translateFieldType (Field ''publishedOn'' ''Date'' False False False None None) =
      Inr \<lparr>dtype = ''Date'', extensions = Some [(''dateformat'', EmptyObject)], resolve = None\<rparr>"
  using translateFieldType_primitive [of "''body''" True False False None None]
    translateFieldType_primitive [of "''publishedOn''" False False False None None]
  by simp

text \<open>
  C9. A field that is neither an array nor a link and whose type is not a key of the dispatch
  table makes \<^verbatim>\<open>translateFieldType\<close> throw: the lookup gives \<^verbatim>\<open>undefined\<close>, which is then
  called. The table has no default entry, so the translation of such a field succeeds exactly
  when its type is one of the nine keys.
\<close>

theorem translateFieldType_unregistered:
  "ty \<noteq> ''Array'' \<Longrightarrow> ty \<noteq> ''Link'' \<Longrightarrow>
     (ty \<notin> set (map fst ContentfulDataTypes) \<longrightarrow>
        translateFieldType (Field fid ty req dis om lt its) =
          Inl (typeError ''ContentfulDataTypes.get(...) is not a function''))
   \<and> (ty \<in> set (map fst ContentfulDataTypes) \<longrightarrow>
        (\<exists>d. translateFieldType (Field fid ty req dis om lt its) = Inr d))
   \<and> set (map fst ContentfulDataTypes) =
        {''Symbol'', ''Text'', ''Integer'', ''Number'', ''Date'', ''Object'', ''Boolean'',
         ''Location'', ''RichText''}"
proof (cases "map_of ContentfulDataTypes ty")
  case None
  then have "ty \<notin> set (map fst ContentfulDataTypes)"
    by (simp add: map_of_eq_None_iff)
  with None show ?thesis if "ty \<noteq> ''Array''" "ty \<noteq> ''Link''"
    using that by (simp add: ContentfulDataTypes_keys)
next
  case (Some mk)
  then have "ty \<in> set (map fst ContentfulDataTypes)"
    using map_of_eq_None_iff [of ContentfulDataTypes ty] by simp
  with Some show ?thesis if "ty \<noteq> ''Array''" "ty \<noteq> ''Link''"
    using that by (simp add: ContentfulDataTypes_keys)
qed

theorem translateFieldType_unregistered_witness:
  "''Markdown'' \<noteq> ''Array'' \<and> ''Markdown'' \<noteq> ''Link''
   \<and> ''Markdown'' \<notin> set (map fst ContentfulDataTypes)
   \<and> translateFieldType (Field ''notes'' ''Markdown'' False False False None None) =
       Inl (typeError ''ContentfulDataTypes.get(...) is not a function'')
   \<and> ''Number'' \<in> set (map fst ContentfulDataTypes)
   \<and> translateFieldType (Field ''price'' ''Number'' False False False None None) =
       Inr \<lparr>dtype = ''Float'', extensions = None, resolve = None\<rparr>"
proof -
  have a: "''Markdown'' \<noteq> ''Array''" and b: "''Markdown'' \<noteq> ''Link''" by simp_all
  have k: "''Markdown'' \<notin> set (map fst ContentfulDataTypes)"
    "''Number'' \<in> set (map fst ContentfulDataTypes)"
    by (simp_all add: ContentfulDataTypes_keys)
  have n: "translateFieldType (Field ''price'' ''Number'' False False False None None) =
       Inr \<lparr>dtype = ''Float'', extensions = None, resolve = None\<rparr>"
    by (simp add: applyRequired_def ContentfulDataTypes_def)
  from translateFieldType_unregistered [OF a b, of "''notes''" False False False None None] k n
  show ?thesis by simp
qed

section \<open>Properties of the schema assembler\<close>

subsection \<open>The host functions and the statements before the loop\<close>

lemma createTypes_cases:
  "createTypes env types st = (r, st') \<Longrightarrow>
     (r = Inr () \<and> st' = st\<lparr>registered := registered st @ types\<rparr>)
     \<or> ((\<exists>err. r = Inl err \<and> createTypesError env (registered st) types = Some err) \<and> st' = st)"
  by (auto simp add: createTypes_def split: option.splits)

lemma run_cases:
  "run env s st = (r, st') \<Longrightarrow>
     (r = Inr () \<and> st' = st\<lparr>registered := registered st @ declared env s\<rparr>)
     \<or> ((\<exists>err. r = Inl err) \<and> st' = st)"
  by (cases s) (auto simp add: createTypes_def buildObjectType_def split: option.splits)

lemma runAll_registered:
  "runAll env ss st = (r, st') \<Longrightarrow>
     \<exists>ds rest. registered st' = registered st @ ds \<and> console st' = console st
        \<and> concat (map (declared env) ss) = ds @ rest \<and> (r = Inr () \<longrightarrow> rest = [])"
proof (induction ss arbitrary: st)
  case Nil
  then show ?case by auto
next
  case (Cons s ss)
  obtain r1 st1 where s1: "run env s st = (r1, st1)" by (cases "run env s st")
  from run_cases [OF s1] show ?case
  proof
    assume a: "r1 = Inr () \<and> st1 = st\<lparr>registered := registered st @ declared env s\<rparr>"
    with Cons.prems s1 have "runAll env ss st1 = (r, st')" by simp
    from Cons.IH [OF this] obtain ds rest where
      "registered st' = registered st1 @ ds" "console st' = console st1"
      "concat (map (declared env) ss) = ds @ rest" "r = Inr () \<longrightarrow> rest = []"
      by blast
    with a show ?thesis
      by (intro exI [of _ "declared env s @ ds"] exI [of _ rest]) simp
  next
    assume a: "(\<exists>err. r1 = Inl err) \<and> st1 = st"
    with Cons.prems s1 have "st' = st" "r \<noteq> Inr ()" by auto
    then show ?thesis
      by (intro exI [of _ "[]"] exI [of _ "concat (map (declared env) (s # ss))"]) simp
  qed
qed

lemma declared_fixedStatements:
  "concat (map (declared env) (fixedStatements env)) = fixedTypes env"
  by (simp add: fixedStatements_def fixedTypes_def)

lemma run_accepting:
  assumes "\<forall>spec. buildObjectTypeError env spec = None"
    and "\<forall>accepted types. createTypesError env accepted types = None"
  shows "fst (run env s st) = Inr ()"
  using assms by (cases s) (simp_all add: createTypes_def buildObjectType_def)

lemma runAll_accepting:
  assumes "\<forall>spec. buildObjectTypeError env spec = None"
    and "\<forall>accepted types. createTypesError env accepted types = None"
  shows "fst (runAll env ss st) = Inr ()"
proof (induction ss arbitrary: st)
  case Nil
  show ?case by simp
next
  case (Cons s ss)
  obtain r1 st1 where s1: "run env s st = (r1, st1)" by (cases "run env s st")
  with run_accepting [OF assms, of s st] have "r1 = Inr ()" by simp
  with s1 Cons.IH [of st1] show ?case by simp
qed

lemma runAll_accepting_eq:
  assumes "\<forall>spec. buildObjectTypeError env spec = None"
    and "\<forall>accepted types. createTypesError env accepted types = None"
  shows "runAll env ss st =
     (Inr (), st\<lparr>registered := registered st @ concat (map (declared env) ss)\<rparr>)"
proof (induction ss arbitrary: st)
  case Nil
  show ?case by simp
next
  case (Cons s ss)
  from assms have "run env s st = (Inr (), st\<lparr>registered := registered st @ declared env s\<rparr>)"
    by (cases s) (simp_all add: createTypes_def buildObjectType_def)
  then show ?case by (simp add: Cons.IH)
qed

lemma generateSchema_accepting_eq:
  assumes "\<forall>spec. buildObjectTypeError env spec = None"
    and "\<forall>accepted types. createTypesError env accepted types = None"
  shows "generateSchema env cts st =
     contentTypesLoop env cts (st\<lparr>registered := registered st @ fixedTypes env\<rparr>)"
  by (simp add: generateSchema_def runAll_accepting_eq [OF assms] declared_fixedStatements)

lemma sampleEnv_accepting:
  "\<forall>spec. buildObjectTypeError sampleEnv spec = None"
  "\<forall>accepted types. createTypesError sampleEnv accepted types = None"
  by (simp_all add: sampleEnv_def)

subsection \<open>The loop over the fields\<close>

lemma translateFields_append:
  "translateFields (xs @ ys) acc =
     (case translateFields xs acc of Inl err \<Rightarrow> Inl err | Inr m \<Rightarrow> translateFields ys m)"
  by (induction xs arbitrary: acc) (simp_all split: sum.splits)

lemma dom_translateFields:
  "translateFields fs acc = Inr m \<Longrightarrow>
     dom m = dom acc \<union> (field_id ` {f \<in> set fs. \<not> disabled f \<and> \<not> omitted f} - {''__proto__''})"
proof (induction fs arbitrary: acc)
  case Nil
  then show ?case by simp
next
  case (Cons f fs)
  show ?case
  proof (cases "disabled f \<or> omitted f")
    case True
    with Cons.prems have "translateFields fs acc = Inr m" by simp
    from Cons.IH [OF this] True show ?thesis by auto
  next
    case False
    from False have 2: "field_id ` {g \<in> set (f # fs). \<not> disabled g \<and> \<not> omitted g} =
        insert (field_id f) (field_id ` {f \<in> set fs. \<not> disabled f \<and> \<not> omitted f})"
      by auto
    show ?thesis
    proof (cases "field_id f = ''__proto__''")
      case True
      with False Cons.prems have r: "translateFields fs acc = Inr m"
        by (auto split: sum.splits)
      show ?thesis unfolding Cons.IH [OF r] 2 using True by auto
    next
      case neq: False
      with False Cons.prems obtain d where d: "translateFieldType f = Inr d"
        and r: "translateFields fs (acc(field_id f \<mapsto> d)) = Inr m"
        by (auto split: sum.splits)
      have 0: "dom (acc(field_id f \<mapsto> d)) = insert (field_id f) (dom acc)" by simp
      show ?thesis unfolding Cons.IH [OF r] 0 2 using neq by auto
    qed
  qed
qed

lemma translateFields_untouched:
  "translateFields fs acc = Inr m \<Longrightarrow>
     \<forall>g \<in> set fs. \<not> disabled g \<and> \<not> omitted g \<longrightarrow> field_id g \<noteq> k \<Longrightarrow> m k = acc k"
proof (induction fs arbitrary: acc)
  case Nil
  then show ?case by simp
next
  case (Cons f fs)
  show ?case
  proof (cases "disabled f \<or> omitted f")
    case True
    with Cons.prems have "translateFields fs acc = Inr m" by simp
    from Cons.IH [OF this] Cons.prems(2) show ?thesis by simp
  next
    case False
    with Cons.prems obtain acc' where r: "translateFields fs acc' = Inr m"
      and a: "acc' = acc \<or> (\<exists>d. acc' = acc(field_id f \<mapsto> d))"
      by (auto split: sum.splits if_splits)
    from Cons.prems(2) False have "field_id f \<noteq> k" by simp
    with a have "acc' k = acc k" by auto
    with Cons.IH [OF r] Cons.prems(2) show ?thesis by simp
  qed
qed

lemma translateFields_last:
  assumes "translateFields (fs1 @ f # fs2) acc = Inr m"
    and "\<not> disabled f" "\<not> omitted f" "field_id f \<noteq> ''__proto__''"
    and "\<forall>g \<in> set fs2. \<not> disabled g \<and> \<not> omitted g \<longrightarrow> field_id g \<noteq> field_id f"
  shows "\<exists>d. translateFieldType f = Inr d \<and> m (field_id f) = Some d"
proof -
  from assms(1) obtain m1 where "translateFields (f # fs2) m1 = Inr m"
    by (auto simp add: translateFields_append split: sum.splits)
  with assms(2,3,4) obtain d where d: "translateFieldType f = Inr d"
    and r: "translateFields fs2 (m1(field_id f \<mapsto> d)) = Inr m"
    by (auto split: sum.splits)
  from translateFields_untouched [OF r assms(5)] d show ?thesis by simp
qed

subsection \<open>Translated descriptors and the fixed fields\<close>

lemma ContentfulDataTypes_dtype:
  "map_of ContentfulDataTypes ty = Some mk \<Longrightarrow>
     dtype (mk f) \<in> {''String'', ''ContentfulText'', ''Int'', ''Float'', ''Date'', ''JSON'',
       ''Boolean'', ''ContentfulLocation'', ''ContentfulRichText''}"
  by (auto simp add: ContentfulDataTypes_def split: if_splits)

lemma applyRequired_dtype:
  "dtype x \<in> {''String'', ''ContentfulText'', ''Int'', ''Float'', ''Date'', ''JSON'',
       ''Boolean'', ''ContentfulLocation'', ''ContentfulRichText''} \<Longrightarrow>
   dtype (applyRequired req x) \<notin> {''ID!'', ''ContentfulSys!'', ''ContentfulMetadata!''}"
  by (auto simp add: applyRequired_def)

lemma translateFieldType_shape:
  assumes "translateFieldType f = Inr d"
  shows "extensions d \<noteq> None \<or> dtype d \<notin> {''ID!'', ''ContentfulSys!'', ''ContentfulMetadata!''}"
proof (cases f)
  case (Field fid ty req dis om lt its)
  consider "ty = ''Array''" | "ty = ''Link''" | "ty \<noteq> ''Array''" "ty \<noteq> ''Link''" by blast
  then show ?thesis
  proof cases
    case 1
    with assms Field obtain x where "d = applyRequired req (x\<lparr>dtype := ''['' @ dtype x @ '']''\<rparr>)"
      by (auto split: option.splits sum.splits if_splits)
    then show ?thesis by (simp add: applyRequired_def)
  next
    case 2
    with assms Field show ?thesis
      by (auto simp add: applyRequired_def getLinkFieldType_def)
  next
    case 3
    with assms Field obtain mk where mk: "map_of ContentfulDataTypes ty = Some mk"
      and d: "d = applyRequired req (mk f)"
      by (auto split: option.splits)
    from applyRequired_dtype [OF ContentfulDataTypes_dtype [OF mk]] d show ?thesis by blast
  qed
qed

lemma fixedFields_Some:
  "fixedFields k = Some d \<Longrightarrow>
     extensions d = None \<and> dtype d \<in> {''ID!'', ''ContentfulSys!'', ''ContentfulMetadata!''}"
  by (auto simp add: fixedFields_def split: if_splits)

lemma dom_fixedFields: "dom fixedFields = {''id'', ''sys'', ''metadata''}"
  by (auto simp add: fixedFields_def)

lemma translateFieldType_not_fixed:
  "translateFieldType f = Inr d \<Longrightarrow> fixedFields k \<noteq> Some d"
  using translateFieldType_shape [of f d] fixedFields_Some [of k d] by auto

subsection \<open>Content types\<close>

lemma buildContentType_shape:
  assumes "buildContentType env item = Inr t"
  shows "\<exists>fs. translateFields (item_fields item) Map.empty = Inr fs
           \<and> type_fields t = fixedFields ++ fs
           \<and> interfaces t = Some [''ContentfulReference'', ''ContentfulEntry'', ''Node'']
           \<and> type_extensions t = Some [(''dontInfer'', EmptyObject)]"
  using assms
  by (auto simp add: buildContentType_def buildObjectType_def split: sum.splits option.splits)

lemma buildContentType_dom:
  assumes "buildContentType env item = Inr t"
  shows "dom (type_fields t) = {''id'', ''sys'', ''metadata''}
           \<union> (set (map field_id (schemaFields item)) - {''__proto__''})"
proof -
  from buildContentType_shape [OF assms] obtain fs where
    fs: "translateFields (item_fields item) Map.empty = Inr fs" "type_fields t = fixedFields ++ fs"
    by blast
  from dom_translateFields [OF fs(1)] fs(2) show ?thesis
    by (simp add: dom_fixedFields Un_commute)
qed

lemma buildContentType_keys:
  assumes "buildContentType env item = Inr t"
  shows "dom (type_fields t) - {''__proto__''} =
           ({''id'', ''sys'', ''metadata''} \<union> set (map field_id (schemaFields item)))
             - {''__proto__''}"
  unfolding buildContentType_dom [OF assms] by auto

lemma buildContentType_card:
  assumes "buildContentType env item = Inr t"
    and "distinct (map field_id (schemaFields item))"
    and "set (map field_id (schemaFields item))
           \<inter> {''id'', ''sys'', ''metadata'', ''__proto__''} = {}"
  shows "card (dom (type_fields t)) = 3 + length (schemaFields item)"
proof -
  let ?ids = "map field_id (schemaFields item)"
  have 3: "card {''id'', ''sys'', ''metadata''} = 3" by simp
  from assms(3) have p: "set ?ids - {''__proto__''} = set ?ids" by blast
  from assms(2) have "card (set ?ids) = length ?ids" by (rule distinct_card)
  moreover from assms(3) have "{''id'', ''sys'', ''metadata''} \<inter> set ?ids = {}" by blast
  then have "card ({''id'', ''sys'', ''metadata''} \<union> set ?ids)
      = card {''id'', ''sys'', ''metadata''} + card (set ?ids)"
    by (intro card_Un_disjoint) simp_all
  ultimately show ?thesis
    unfolding buildContentType_dom [OF assms(1)] p 3 by simp
qed

lemma buildContentType_dontInfer:
  "buildContentType env item = Inr t \<Longrightarrow> dontInfer t"
  using buildContentType_shape [of env item t] by (auto simp add: dontInfer_def)

lemma tryContentType_cases:
  "tryContentType env item st = (r, st') \<Longrightarrow>
     (\<exists>t. buildContentType env item = Inr t \<and> r = Inr ()
          \<and> st' = st\<lparr>registered := registered st @ [t]\<rparr>)
     \<or> ((\<exists>err. r = Inl err
            \<and> (buildContentType env item = Inl err
                \<or> (\<exists>t. buildContentType env item = Inr t
                       \<and> createTypesError env (registered st) [t] = Some err)))
         \<and> st' = st)"
  by (auto simp add: tryContentType_def createTypes_def split: sum.splits option.splits)

lemma tryContentType_throws:
  "buildContentType env item = Inl err
     \<or> (\<exists>t. buildContentType env item = Inr t
            \<and> createTypesError env (registered st) [t] = Some err) \<Longrightarrow>
   tryContentType env item st = (Inl err, st)"
  by (auto simp add: tryContentType_def createTypes_def)

lemma catchContentType_registered:
  "catchContentType item err st = (r, st') \<Longrightarrow> registered st' = registered st \<and> r \<noteq> Inr ()"
  by (auto simp add: catchContentType_def split: prod.splits)

lemma contentTypesLoop_prefix:
  "contentTypesLoop env cts st = (r, st') \<Longrightarrow>
     \<exists>ts. registered st' = registered st @ ts \<and> length ts \<le> length cts
        \<and> list_all2 (\<lambda>item t. buildContentType env item = Inr t) (take (length ts) cts) ts
        \<and> (r = Inr () \<longrightarrow> length ts = length cts)"
proof (induction cts arbitrary: st)
  case Nil
  then show ?case by auto
next
  case (Cons item cts)
  obtain r1 st1 where t1: "tryContentType env item st = (r1, st1)"
    by (cases "tryContentType env item st")
  from tryContentType_cases [OF t1] show ?case
  proof
    assume "\<exists>t. buildContentType env item = Inr t \<and> r1 = Inr ()
          \<and> st1 = st\<lparr>registered := registered st @ [t]\<rparr>"
    then obtain t where t: "buildContentType env item = Inr t" "r1 = Inr ()"
      "st1 = st\<lparr>registered := registered st @ [t]\<rparr>" by blast
    with Cons.prems t1 have "contentTypesLoop env cts st1 = (r, st')" by simp
    from Cons.IH [OF this] obtain ts where
      ts: "registered st' = registered st1 @ ts" "length ts \<le> length cts"
        "list_all2 (\<lambda>item t. buildContentType env item = Inr t) (take (length ts) cts) ts"
        "r = Inr () \<longrightarrow> length ts = length cts"
      by blast
    with t show ?thesis by (intro exI [of _ "t # ts"]) simp
  next
    assume a: "(\<exists>err. r1 = Inl err
            \<and> (buildContentType env item = Inl err
                \<or> (\<exists>t. buildContentType env item = Inr t
                       \<and> createTypesError env (registered st) [t] = Some err)))
         \<and> st1 = st"
    then obtain err where "r1 = Inl err" "st1 = st" by blast
    with Cons.prems t1 have "catchContentType item err st = (r, st')" by simp
    from catchContentType_registered [OF this] show ?thesis
      by (intro exI [of _ "[]"]) simp
  qed
qed

lemma contentTypesLoop_append:
  "contentTypesLoop env (xs @ ys) st =
     (case contentTypesLoop env xs st of
        (Inl err, st') \<Rightarrow> (Inl err, st')
      | (Inr u, st') \<Rightarrow> contentTypesLoop env ys st')"
proof (induction xs arbitrary: st)
  case Nil
  show ?case by simp
next
  case (Cons x xs)
  show ?case
    by (auto simp add: Cons.IH catchContentType_def split: prod.splits sum.splits)
qed

lemma generateSchema_append:
  "generateSchema env (xs @ ys) st =
     (case generateSchema env xs st of
        (Inl err, st') \<Rightarrow> (Inl err, st')
      | (Inr u, st') \<Rightarrow> contentTypesLoop env ys st')"
  by (auto simp add: generateSchema_def contentTypesLoop_append split: prod.splits sum.splits)

lemma generateSchema_registered:
  assumes "generateSchema env cts st = (r, st')"
  shows "\<exists>ds rest ts. registered st' = registered st @ ds @ ts \<and> fixedTypes env = ds @ rest
           \<and> (ts \<noteq> [] \<longrightarrow> rest = [])
           \<and> length ts \<le> length cts
           \<and> list_all2 (\<lambda>item t. buildContentType env item = Inr t) (take (length ts) cts) ts
           \<and> (r = Inr () \<longrightarrow> rest = [] \<and> length ts = length cts)"
proof -
  obtain r0 st0 where f: "runAll env (fixedStatements env) st = (r0, st0)"
    by (cases "runAll env (fixedStatements env) st")
  from runAll_registered [OF f] obtain ds rest where
    ds: "registered st0 = registered st @ ds" "fixedTypes env = ds @ rest"
      "r0 = Inr () \<longrightarrow> rest = []"
    by (auto simp add: declared_fixedStatements)
  show ?thesis
  proof (cases r0)
    case (Inl err)
    with assms f have "r = Inl err" "st' = st0" by (simp_all add: generateSchema_def)
    with ds show ?thesis
      by (intro exI [of _ ds] exI [of _ rest] exI [of _ "[]"]) simp
  next
    case (Inr u)
    with assms f have "contentTypesLoop env cts st0 = (r, st')"
      by (simp add: generateSchema_def)
    from contentTypesLoop_prefix [OF this] obtain ts where
      "registered st' = registered st0 @ ts" "length ts \<le> length cts"
      "list_all2 (\<lambda>item t. buildContentType env item = Inr t) (take (length ts) cts) ts"
      "r = Inr () \<longrightarrow> length ts = length cts"
      by blast
    with ds Inr show ?thesis
      by (intro exI [of _ ds] exI [of _ "[]"] exI [of _ ts]) simp
  qed
qed

lemma generateSchema_accepting:
  assumes "\<forall>spec. buildObjectTypeError env spec = None"
    and "\<forall>accepted types. createTypesError env accepted types = None"
    and "generateSchema env cts st = (r, st')"
  shows "\<exists>ts. registered st' = registered st @ fixedTypes env @ ts
           \<and> length ts \<le> length cts
           \<and> list_all2 (\<lambda>item t. buildContentType env item = Inr t) (take (length ts) cts) ts
           \<and> (r = Inr () \<longrightarrow> length ts = length cts)"
proof -
  obtain r0 st0 where f: "runAll env (fixedStatements env) st = (r0, st0)"
    by (cases "runAll env (fixedStatements env) st")
  with runAll_accepting [OF assms(1,2), of "fixedStatements env" st] have r0: "r0 = Inr ()"
    by simp
  from runAll_registered [OF f] r0 have ds: "registered st0 = registered st @ fixedTypes env"
    by (auto simp add: declared_fixedStatements)
  from assms(3) f r0 have "contentTypesLoop env cts st0 = (r, st')"
    by (simp add: generateSchema_def)
  from contentTypesLoop_prefix [OF this] ds show ?thesis by auto
qed

lemma sampleEnv_single:
  assumes "buildContentType sampleEnv item = Inr t"
  shows "generateSchema sampleEnv [item] st =
     (Inr (), st\<lparr>registered := registered st @ fixedTypes sampleEnv @ [t]\<rparr>)"
  using assms sampleEnv_accepting(2)
  by (simp add: generateSchema_accepting_eq [OF sampleEnv_accepting] tryContentType_def
      createTypes_def)

lemma samplePost_builds:
  "buildContentType sampleEnv samplePost =
     Inr \<lparr>kind = ObjectType, type_name = ''ContentfulContentTypeblogPost'',
          type_fields = fixedFields ++ [''title'' \<mapsto> typeOnly ''String!'', ''id'' \<mapsto> typeOnly ''Int''],
          interfaces = Some [''ContentfulReference'', ''ContentfulEntry'', ''Node''],
          type_extensions = Some [(''dontInfer'', EmptyObject)]\<rparr>"
  by (simp add: buildContentType_def buildObjectType_def samplePost_def sampleEnv_def
      applyRequired_def ContentfulDataTypes_def)

lemma sampleProto_builds:
  "buildContentType sampleEnv sampleProto =
     Inr \<lparr>kind = ObjectType, type_name = ''ContentfulContentTypeproto'',
          type_fields = fixedFields ++ [''title'' \<mapsto> typeOnly ''String!''],
          interfaces = Some [''ContentfulReference'', ''ContentfulEntry'', ''Node''],
          type_extensions = Some [(''dontInfer'', EmptyObject)]\<rparr>"
  by (simp add: buildContentType_def buildObjectType_def sampleProto_def sampleEnv_def
      applyRequired_def ContentfulDataTypes_def)

lemma samplePage_builds: "\<exists>t. buildContentType sampleEnv samplePage = Inr t"
  by (simp add: buildContentType_def buildObjectType_def samplePage_def sampleEnv_def
      applyRequired_def getLinkFieldType_def ContentfulDataTypes_def)

lemma samplePage_builds_explicit:
  "buildContentType sampleEnv samplePage =
     Inr \<lparr>kind = ObjectType, type_name = ''ContentfulContentTypepage'',
          type_fields = fixedFields ++
            [''title'' \<mapsto> typeOnly ''String!'',
             ''hero'' \<mapsto> \<lparr>dtype = ''ContentfulAsset'',
                extensions = Some [(''link'', LinkDirective (Some ''id'') ''hero___NODE'')],
                resolve = None\<rparr>],
          interfaces = Some [''ContentfulReference'', ''ContentfulEntry'', ''Node''],
          type_extensions = Some [(''dontInfer'', EmptyObject)]\<rparr>"
  by (simp add: buildContentType_def buildObjectType_def samplePage_def sampleEnv_def
      applyRequired_def getLinkFieldType_def ContentfulDataTypes_def)

lemma sampleWidget_fails:
  "buildContentType sampleEnv sampleWidget =
     Inl (typeError ''ContentfulDataTypes.get(...) is not a function'')"
  by (simp add: buildContentType_def sampleWidget_def ContentfulDataTypes_def)

lemma fixed_dontInfer:
  "dontInfer ContentfulSys" "dontInfer ContentfulEntry" "dontInfer ContentfulMetadata"
  "dontInfer ContentfulTag" "dontInfer ContentfulRichText" "dontInfer ContentfulLocation"
  "dontInfer ContentfulText"
  by (simp_all add: dontInfer_def ContentfulSys_def ContentfulEntry_def ContentfulMetadata_def
      ContentfulTag_def ContentfulRichText_def ContentfulLocation_def ContentfulText_def)

lemma fixed_not_dontInfer:
  "\<not> dontInfer ContentfulReference" "\<not> dontInfer ContentfulContentType"
  "\<not> dontInfer (ContentfulAsset env)" "\<not> dontInfer ContentfulRichTextAssets"
  "\<not> dontInfer ContentfulRichTextEntries" "\<not> dontInfer ContentfulRichTextLinks"
  by (simp_all add: dontInfer_def ContentfulReference_def ContentfulContentType_def
      ContentfulAsset_def ContentfulRichTextAssets_def ContentfulRichTextEntries_def
      ContentfulRichTextLinks_def)

lemma fixed_names:
  "type_name ContentfulReference = ''ContentfulReference''"
  "type_name ContentfulContentType = ''ContentfulContentType''"
  "type_name ContentfulSys = ''ContentfulSys''"
  "type_name ContentfulEntry = ''ContentfulEntry''"
  "type_name ContentfulMetadata = ''ContentfulMetadata''"
  "type_name ContentfulTag = ''ContentfulTag''"
  "type_name (ContentfulAsset env) = ''ContentfulAsset''"
  "type_name ContentfulRichTextAssets = ''ContentfulRichTextAssets''"
  "type_name ContentfulRichTextEntries = ''ContentfulRichTextEntries''"
  "type_name ContentfulRichTextLinks = ''ContentfulRichTextLinks''"
  "type_name ContentfulRichText = ''ContentfulRichText''"
  "type_name ContentfulLocation = ''ContentfulLocation''"
  "type_name ContentfulText = ''ContentfulText''"
  by (simp_all add: ContentfulReference_def ContentfulContentType_def ContentfulSys_def
      ContentfulEntry_def ContentfulMetadata_def ContentfulTag_def ContentfulAsset_def
      ContentfulRichTextAssets_def ContentfulRichTextEntries_def ContentfulRichTextLinks_def
      ContentfulRichText_def ContentfulLocation_def ContentfulText_def)

lemma rejectingEnv_builds:
  "buildContentType rejectingEnv item = buildContentType sampleEnv item"
  by (simp add: buildContentType_def buildObjectType_def rejectingEnv_def split: sum.splits)

lemma rejectingEnv_fixed:
  "runAll rejectingEnv (fixedStatements rejectingEnv) st =
     (Inr (), st\<lparr>registered := registered st @ fixedTypes rejectingEnv\<rparr>)"
  by (simp add: fixedStatements_def fixedTypes_def createTypes_def buildObjectType_def
      rejectingEnv_def sampleEnv_def fixed_names)

lemma rejectingEnv_page:
  "\<exists>st1. generateSchema rejectingEnv [samplePage] st = (Inr (), st1) \<and> console st1 = console st"
  by (simp add: generateSchema_def rejectingEnv_fixed tryContentType_def rejectingEnv_builds
      samplePage_builds_explicit createTypes_def)
     (simp add: rejectingEnv_def)

lemma list_all2_singleton:
  "list_all2 P (take (length [y]) [x]) [y] \<Longrightarrow> P x y"
  by simp

lemma list_all2_rightD:
  "list_all2 P xs ys \<Longrightarrow> y \<in> set ys \<Longrightarrow> \<exists>x. P x y"
  by (induction rule: list_all2_induct) auto

text \<open>
  C5, as stated, fails in two ways. A field with the id \<open>__proto__\<close> that is neither disabled
  nor omitted is translated, but the object type registered for its content type has no entry
  for it. And a field with the id \<open>id\<close> shares the entry of the fixed field: the content type
  \<open>samplePost\<close> has two fields that are neither disabled nor omitted, and its object type has
  four entries, not five.
\<close>

theorem proto_field_without_entry:
  "fst (generateSchema sampleEnv [sampleProto] \<lparr>registered = [], console = []\<rparr>) = Inr ()
   \<and> Field ''__proto__'' ''Symbol'' False False False None None \<in> set (item_fields sampleProto)
   \<and> \<not> disabled (Field ''__proto__'' ''Symbol'' False False False None None)
   \<and> \<not> omitted (Field ''__proto__'' ''Symbol'' False False False None None)
   \<and> type_fields (last (registered (snd
        (generateSchema sampleEnv [sampleProto] \<lparr>registered = [], console = []\<rparr>))))
        ''__proto__'' = None
   \<and> fst (generateSchema sampleEnv [samplePost] \<lparr>registered = [], console = []\<rparr>) = Inr ()
   \<and> item_fields samplePost =
        [Field ''title'' ''Symbol'' True False False None None,
         Field ''draft'' ''Boolean'' False True False None None,
         Field ''id'' ''Integer'' False False False None None]
   \<and> \<not> disabled (Field ''title'' ''Symbol'' True False False None None)
   \<and> \<not> omitted (Field ''title'' ''Symbol'' True False False None None)
   \<and> disabled (Field ''draft'' ''Boolean'' False True False None None)
   \<and> \<not> disabled (Field ''id'' ''Integer'' False False False None None)
   \<and> \<not> omitted (Field ''id'' ''Integer'' False False False None None)
   \<and> card (dom (type_fields (last (registered (snd
        (generateSchema sampleEnv [samplePost] \<lparr>registered = [], console = []\<rparr>)))))) = 4"
proof -
  have q: "fixedFields ''__proto__'' = None"
    by (simp add: fixedFields_def)
  have l: "item_fields samplePost =
        [Field ''title'' ''Symbol'' True False False None None,
         Field ''draft'' ''Boolean'' False True False None None,
         Field ''id'' ''Integer'' False False False None None]"
    "Field ''__proto__'' ''Symbol'' False False False None None \<in> set (item_fields sampleProto)"
    by (simp_all add: samplePost_def sampleProto_def)
  have c: "card {''id'', ''title'', ''id'', ''sys'', ''metadata''} = 4"
    by (simp add: card_insert_if)
  show ?thesis
    unfolding sampleEnv_single [OF sampleProto_builds] sampleEnv_single [OF samplePost_builds]
    by (simp add: l q c dom_fixedFields)
qed

text \<open>
  C5, amended. The declarations registered by a run of \<^verbatim>\<open>generateSchema\<close> are those of the
  statements before the loop (all of them unless a host function threw there), followed by
  one object type for each content type processed, in order (all of them when the run returns
  normally). Leaving the key \<open>__proto__\<close> aside, the keys of the field map of each such type
  are \<open>id\<close>, \<open>sys\<close> and \<open>metadata\<close> together with the ids of the fields of the content type
  that are neither disabled nor omitted, and nothing else: every such field has an entry
  under its id, and a disabled or omitted field adds none. Fields that share an id, with each
  other or with a fixed field, share the entry: the map has three entries more than there are
  such fields when their ids are pairwise distinct and none of them is \<open>id\<close>, \<open>sys\<close>,
  \<open>metadata\<close> or \<open>__proto__\<close>. The type implements \<open>ContentfulReference\<close>, \<open>ContentfulEntry\<close>
  and \<open>Node\<close>.
\<close>

theorem generateSchema_content_type_fields:
  assumes "generateSchema env cts st = (r, st')"
  shows "\<exists>ds rest ts. registered st' = registered st @ ds @ ts \<and> fixedTypes env = ds @ rest
           \<and> (ts \<noteq> [] \<longrightarrow> rest = [])
           \<and> length ts \<le> length cts
           \<and> (r = Inr () \<longrightarrow> rest = [] \<and> length ts = length cts)
           \<and> list_all2 (\<lambda>item t.
                 buildContentType env item = Inr t
                 \<and> dom (type_fields t) - {''__proto__''} =
                     ({''id'', ''sys'', ''metadata''} \<union> set (map field_id (schemaFields item)))
                       - {''__proto__''}
                 \<and> (distinct (map field_id (schemaFields item))
                    \<and> set (map field_id (schemaFields item))
                         \<inter> {''id'', ''sys'', ''metadata'', ''__proto__''} = {}
                    \<longrightarrow> card (dom (type_fields t)) = 3 + length (schemaFields item))
                 \<and> interfaces t = Some [''ContentfulReference'', ''ContentfulEntry'', ''Node''])
               (take (length ts) cts) ts"
proof -
  from generateSchema_registered [OF assms] obtain ds rest ts where
    ts: "registered st' = registered st @ ds @ ts" "fixedTypes env = ds @ rest"
      "ts \<noteq> [] \<longrightarrow> rest = []" "length ts \<le> length cts"
      "list_all2 (\<lambda>item t. buildContentType env item = Inr t) (take (length ts) cts) ts"
      "r = Inr () \<longrightarrow> rest = [] \<and> length ts = length cts"
    by blast
  have "list_all2 (\<lambda>item t.
                 buildContentType env item = Inr t
                 \<and> dom (type_fields t) - {''__proto__''} =
                     ({''id'', ''sys'', ''metadata''} \<union> set (map field_id (schemaFields item)))
                       - {''__proto__''}
                 \<and> (distinct (map field_id (schemaFields item))
                    \<and> set (map field_id (schemaFields item))
                         \<inter> {''id'', ''sys'', ''metadata'', ''__proto__''} = {}
                    \<longrightarrow> card (dom (type_fields t)) = 3 + length (schemaFields item))
                 \<and> interfaces t = Some [''ContentfulReference'', ''ContentfulEntry'', ''Node''])
        (take (length ts) cts) ts"
    using ts(5)
  proof (rule list_all2_mono)
    fix item t
    assume b: "buildContentType env item = Inr t"
    from b buildContentType_keys [OF b] buildContentType_card [OF b] buildContentType_shape [OF b]
    show "buildContentType env item = Inr t
                 \<and> dom (type_fields t) - {''__proto__''} =
                     ({''id'', ''sys'', ''metadata''} \<union> set (map field_id (schemaFields item)))
                       - {''__proto__''}
                 \<and> (distinct (map field_id (schemaFields item))
                    \<and> set (map field_id (schemaFields item))
                         \<inter> {''id'', ''sys'', ''metadata'', ''__proto__''} = {}
                    \<longrightarrow> card (dom (type_fields t)) = 3 + length (schemaFields item))
                 \<and> interfaces t = Some [''ContentfulReference'', ''ContentfulEntry'', ''Node'']"
      by blast
  qed
  with ts(1,2,3,4,6) show ?thesis by blast
qed

theorem generateSchema_content_type_fields_witness:
  "fst (generateSchema sampleEnv [samplePage] \<lparr>registered = [], console = []\<rparr>) = Inr ()
   \<and> (\<exists>t. registered (snd (generateSchema sampleEnv [samplePage] \<lparr>registered = [], console = []\<rparr>))
            = fixedTypes sampleEnv @ [t]
          \<and> buildContentType sampleEnv samplePage = Inr t
          \<and> dom (type_fields t) - {''__proto__''} = {''id'', ''sys'', ''metadata'', ''title'', ''hero''}
          \<and> card (dom (type_fields t)) = 5
          \<and> interfaces t = Some [''ContentfulReference'', ''ContentfulEntry'', ''Node''])"
proof -
  let ?st = "\<lparr>registered = [], console = []\<rparr>"
  let ?run = "generateSchema sampleEnv [samplePage] ?st"
  from samplePage_builds obtain t0 where "buildContentType sampleEnv samplePage = Inr t0"
    by blast
  from sampleEnv_single [OF this] have r: "fst ?run = Inr ()"
    by simp
  then have g: "?run = (Inr (), snd ?run)"
    by (simp add: prod_eq_iff)
  have e: "map field_id (schemaFields samplePage) = [''title'', ''hero'']"
    by (simp add: samplePage_def)
  have l: "length (schemaFields samplePage) = 2"
    by (simp add: samplePage_def)
  from generateSchema_content_type_fields [OF g] obtain ds rest ts where
    ts: "registered (snd ?run) = registered ?st @ ds @ ts" "fixedTypes sampleEnv = ds @ rest"
      "Inr () = (Inr () :: error + unit) \<longrightarrow> rest = [] \<and> length ts = length [samplePage]"
      "list_all2 (\<lambda>item t.
                 buildContentType sampleEnv item = Inr t
                 \<and> dom (type_fields t) - {''__proto__''} =
                     ({''id'', ''sys'', ''metadata''} \<union> set (map field_id (schemaFields item)))
                       - {''__proto__''}
                 \<and> (distinct (map field_id (schemaFields item))
                    \<and> set (map field_id (schemaFields item))
                         \<inter> {''id'', ''sys'', ''metadata'', ''__proto__''} = {}
                    \<longrightarrow> card (dom (type_fields t)) = 3 + length (schemaFields item))
                 \<and> interfaces t = Some [''ContentfulReference'', ''ContentfulEntry'', ''Node''])
               (take (length ts) [samplePage]) ts"
    by blast
  from ts(3) obtain t where t: "ts = [t]" by (cases ts) auto
  from ts(2,3) have f: "ds = fixedTypes sampleEnv" by simp
  note p = list_all2_singleton [OF ts(4) [unfolded t], unfolded e l]
  from p have b: "buildContentType sampleEnv samplePage = Inr t"
    by simp
  from p have d: "dom (type_fields t) - {''__proto__''} = {''id'', ''sys'', ''metadata'', ''title'', ''hero''}"
    by auto
  from p have c: "card (dom (type_fields t)) = 5"
    by simp
  from p have i: "interfaces t = Some [''ContentfulReference'', ''ContentfulEntry'', ''Node'']"
    by simp
  from r ts(1) t f b d c i show ?thesis by simp
qed

text \<open>
  C10. The translated fields are spread after the three fixed fields. So for a field of the
  content type that is neither disabled nor omitted, and is the last such field with its id,
  the object type declares its translated descriptor under that id, in particular when the id
  is \<open>id\<close>, \<open>sys\<close> or \<open>metadata\<close> (only the id \<open>__proto__\<close>, which names no property, is set
  apart), and that descriptor is never the fixed declaration of the key. A key that is the id
  of no such field keeps the fixed declaration: \<open>ID!\<close>, \<open>ContentfulSys!\<close> and
  \<open>ContentfulMetadata!\<close> for the three fixed keys.
\<close>

theorem buildContentType_model_field_overrides:
  assumes "buildContentType env item = Inr t"
  shows "(\<forall>fs1 f fs2. item_fields item = fs1 @ f # fs2 \<longrightarrow> \<not> disabled f \<longrightarrow> \<not> omitted f \<longrightarrow>
            field_id f \<noteq> ''__proto__'' \<longrightarrow>
            (\<forall>g \<in> set fs2. \<not> disabled g \<and> \<not> omitted g \<longrightarrow> field_id g \<noteq> field_id f) \<longrightarrow>
            (\<exists>d. translateFieldType f = Inr d \<and> type_fields t (field_id f) = Some d
                 \<and> fixedFields (field_id f) \<noteq> Some d))
       \<and> (\<forall>k. (\<forall>g \<in> set (item_fields item). \<not> disabled g \<and> \<not> omitted g \<longrightarrow> field_id g \<noteq> k) \<longrightarrow>
            type_fields t k = fixedFields k)
       \<and> fixedFields ''id'' = Some (typeOnly ''ID!'')
       \<and> fixedFields ''sys'' = Some (typeOnly ''ContentfulSys!'')
       \<and> fixedFields ''metadata'' = Some (typeOnly ''ContentfulMetadata!'')"
proof -
  from buildContentType_shape [OF assms] obtain fs where
    fs: "translateFields (item_fields item) Map.empty = Inr fs" "type_fields t = fixedFields ++ fs"
    by blast
  have a: "\<exists>d. translateFieldType f = Inr d \<and> type_fields t (field_id f) = Some d
                 \<and> fixedFields (field_id f) \<noteq> Some d"
    if "item_fields item = fs1 @ f # fs2" "\<not> disabled f" "\<not> omitted f"
      "field_id f \<noteq> ''__proto__''"
      "\<forall>g \<in> set fs2. \<not> disabled g \<and> \<not> omitted g \<longrightarrow> field_id g \<noteq> field_id f"
    for fs1 f fs2
  proof -
    from fs(1) that(1) have "translateFields (fs1 @ f # fs2) Map.empty = Inr fs" by simp
    from translateFields_last [OF this that(2,3,4,5)] obtain d where
      d: "translateFieldType f = Inr d" "fs (field_id f) = Some d" by blast
    from d(2) fs(2) have "type_fields t (field_id f) = Some d" by simp
    with d(1) translateFieldType_not_fixed [OF d(1)] show ?thesis by blast
  qed
  have b: "type_fields t k = fixedFields k"
    if "\<forall>g \<in> set (item_fields item). \<not> disabled g \<and> \<not> omitted g \<longrightarrow> field_id g \<noteq> k" for k
  proof -
    from translateFields_untouched [OF fs(1) that] have "fs k = None" by simp
    with fs(2) show ?thesis by (simp add: map_add_def)
  qed
  have c: "fixedFields ''id'' = Some (typeOnly ''ID!'')"
    "fixedFields ''sys'' = Some (typeOnly ''ContentfulSys!'')"
    "fixedFields ''metadata'' = Some (typeOnly ''ContentfulMetadata!'')"
    by (simp_all add: fixedFields_def)
  from a b c show ?thesis by blast
qed

theorem buildContentType_model_field_overrides_witness:
  "\<exists>t. buildContentType sampleEnv samplePost = Inr t
      \<and> translateFieldType (Field ''id'' ''Integer'' False False False None None) = Inr (typeOnly ''Int'')
      \<and> type_fields t ''id'' = Some (typeOnly ''Int'')
      \<and> type_fields t ''sys'' = Some (typeOnly ''ContentfulSys!'')
      \<and> type_fields t ''metadata'' = Some (typeOnly ''ContentfulMetadata!'')"
proof -
  obtain t where t: "buildContentType sampleEnv samplePost = Inr t"
    using samplePost_builds by blast
  have f: "item_fields samplePost =
      [Field ''title'' ''Symbol'' True False False None None,
       Field ''draft'' ''Boolean'' False True False None None]
      @ Field ''id'' ''Integer'' False False False None None # []"
    by (simp add: samplePost_def)
  have tr: "translateFieldType (Field ''id'' ''Integer'' False False False None None) = Inr (typeOnly ''Int'')"
    by (simp add: applyRequired_def ContentfulDataTypes_def)
  have "\<exists>d. translateFieldType (Field ''id'' ''Integer'' False False False None None) = Inr d
      \<and> type_fields t (field_id (Field ''id'' ''Integer'' False False False None None)) = Some d
      \<and> fixedFields (field_id (Field ''id'' ''Integer'' False False False None None)) \<noteq> Some d"
    by (rule buildContentType_model_field_overrides [OF t, THEN conjunct1, rule_format, OF f]) simp_all
  with tr have 1: "type_fields t ''id'' = Some (typeOnly ''Int'')"
    by simp
  have n: "\<forall>g \<in> set (item_fields samplePost). \<not> disabled g \<and> \<not> omitted g \<longrightarrow> field_id g \<noteq> ''sys''"
    "\<forall>g \<in> set (item_fields samplePost). \<not> disabled g \<and> \<not> omitted g \<longrightarrow> field_id g \<noteq> ''metadata''"
    by (simp_all add: samplePost_def)
  from buildContentType_model_field_overrides [OF t, THEN conjunct2, THEN conjunct1, THEN spec, THEN mp, OF n(1)]
    buildContentType_model_field_overrides [OF t, THEN conjunct2, THEN conjunct1, THEN spec, THEN mp, OF n(2)]
    buildContentType_model_field_overrides [OF t, THEN conjunct2, THEN conjunct2]
  have 2: "type_fields t ''sys'' = Some (typeOnly ''ContentfulSys!'')"
    "type_fields t ''metadata'' = Some (typeOnly ''ContentfulMetadata!'')"
    by simp_all
  from t tr 1 2 show ?thesis by blast
qed

text \<open>
  C7. Let the run on the content types before one return normally, and let the \<^verbatim>\<open>try\<close> block
  of that one throw: in translating a field, in \<^verbatim>\<open>makeTypeName\<close>, in
  \<^verbatim>\<open>schema.buildObjectType\<close>, or in \<^verbatim>\<open>createTypes\<close>. Then \<^verbatim>\<open>generateSchema\<close> throws the same
  error with its message replaced by
  \<^verbatim>\<open>Unable to create schema for Contentful Content Type <name>:\n<original message>\<close>, where
  the name is \<^verbatim>\<open>contentTypeItem.name\<close> or, when that is missing or empty, \<^verbatim>\<open>sys.id\<close>. One
  line is logged, the stack of the error as read after the message was replaced: for an error
  whose stack had not been read before, its header carries the new message. The state is
  that of the run on the earlier content types with that line added, so nothing is
  registered for the failing content type or any after it, and the result does not depend on
  the content types after it.
\<close>

theorem generateSchema_aborts_on_error:
  assumes "generateSchema env pre st = (Inr (), st1)"
    and "buildContentType env bad = Inl err
         \<or> (\<exists>t. buildContentType env bad = Inr t
                \<and> createTypesError env (registered st1) [t] = Some err)"
  shows "let msg = ''Unable to create schema for Contentful Content Type ''
                     @ (case name bad of None \<Rightarrow> sys_id bad
                        | Some n \<Rightarrow> if n = [] then sys_id bad else n)
                     @ '':'' @ [CHR 0x0A] @ message err;
             line = (case stack err of Some s \<Rightarrow> s
                     | None \<Rightarrow> errorToString (err\<lparr>message := msg\<rparr>))
         in generateSchema env (pre @ bad # post) st =
              (Inl (err\<lparr>message := msg, stack := Some line\<rparr>),
               st1\<lparr>console := console st1 @ [line]\<rparr>)"
proof -
  from tryContentType_throws [OF assms(2)]
  have t: "tryContentType env bad st1 = (Inl err, st1)" .
  show ?thesis
    by (simp add: generateSchema_append assms(1) t catchContentType_def readStack_def
        annotate_def displayName_def Let_def split: option.splits)
qed

theorem generateSchema_aborts_on_error_witness:
  "(\<exists>st1. generateSchema sampleEnv [samplePost] \<lparr>registered = [], console = []\<rparr> = (Inr (), st1)
      \<and> buildContentType sampleEnv sampleWidget =
          Inl (typeError ''ContentfulDataTypes.get(...) is not a function'')
      \<and> generateSchema sampleEnv [samplePost, sampleWidget, samplePost]
            \<lparr>registered = [], console = []\<rparr> =
          (Inl \<lparr>error_name = ''TypeError'',
                message = ''Unable to create schema for Contentful Content Type widget:''
                   @ [CHR 0x0A] @ ''ContentfulDataTypes.get(...) is not a function'',
                stack = Some (''TypeError: Unable to create schema for Contentful Content Type widget:''
                   @ [CHR 0x0A] @ ''ContentfulDataTypes.get(...) is not a function'')\<rparr>,
           st1\<lparr>console := [''TypeError: Unable to create schema for Contentful Content Type widget:''
                   @ [CHR 0x0A] @ ''ContentfulDataTypes.get(...) is not a function'']\<rparr>))
   \<and> (\<exists>st1. generateSchema rejectingEnv [samplePage] \<lparr>registered = [], console = []\<rparr> = (Inr (), st1)
      \<and> generateSchema rejectingEnv [samplePage, samplePost, samplePage]
            \<lparr>registered = [], console = []\<rparr> =
          (Inl \<lparr>error_name = ''Error'',
                message = ''Unable to create schema for Contentful Content Type Blog Post:''
                   @ [CHR 0x0A] @ ''Type is already defined'',
                stack = Some (''Error: Unable to create schema for Contentful Content Type Blog Post:''
                   @ [CHR 0x0A] @ ''Type is already defined'')\<rparr>,
           st1\<lparr>console := [''Error: Unable to create schema for Contentful Content Type Blog Post:''
                   @ [CHR 0x0A] @ ''Type is already defined'']\<rparr>))"
proof (rule conjI)
  show "\<exists>st1. generateSchema sampleEnv [samplePost] \<lparr>registered = [], console = []\<rparr> = (Inr (), st1)
      \<and> buildContentType sampleEnv sampleWidget =
          Inl (typeError ''ContentfulDataTypes.get(...) is not a function'')
      \<and> generateSchema sampleEnv [samplePost, sampleWidget, samplePost]
            \<lparr>registered = [], console = []\<rparr> =
          (Inl \<lparr>error_name = ''TypeError'',
                message = ''Unable to create schema for Contentful Content Type widget:''
                   @ [CHR 0x0A] @ ''ContentfulDataTypes.get(...) is not a function'',
                stack = Some (''TypeError: Unable to create schema for Contentful Content Type widget:''
                   @ [CHR 0x0A] @ ''ContentfulDataTypes.get(...) is not a function'')\<rparr>,
           st1\<lparr>console := [''TypeError: Unable to create schema for Contentful Content Type widget:''
                   @ [CHR 0x0A] @ ''ContentfulDataTypes.get(...) is not a function'']\<rparr>)"
  proof -
    let ?st = "\<lparr>registered = [], console = []\<rparr>"
    obtain st1 where st1: "generateSchema sampleEnv [samplePost] ?st = (Inr (), st1)"
      and c: "console st1 = []"
      using sampleEnv_single [OF samplePost_builds, of ?st] by simp
    from generateSchema_aborts_on_error [OF st1 disjI1 [OF sampleWidget_fails], of "[samplePost]"] c
    have "generateSchema sampleEnv [samplePost, sampleWidget, samplePost] ?st =
            (Inl \<lparr>error_name = ''TypeError'',
                  message = ''Unable to create schema for Contentful Content Type widget:''
                     @ [CHR 0x0A] @ ''ContentfulDataTypes.get(...) is not a function'',
                  stack = Some (''TypeError: Unable to create schema for Contentful Content Type widget:''
                     @ [CHR 0x0A] @ ''ContentfulDataTypes.get(...) is not a function'')\<rparr>,
             st1\<lparr>console := [''TypeError: Unable to create schema for Contentful Content Type widget:''
                     @ [CHR 0x0A] @ ''ContentfulDataTypes.get(...) is not a function'']\<rparr>)"
      by (simp add: Let_def typeError_def errorToString_def sampleWidget_def)
    with st1 sampleWidget_fails show ?thesis by blast
  qed
next
  show "\<exists>st1. generateSchema rejectingEnv [samplePage] \<lparr>registered = [], console = []\<rparr> = (Inr (), st1)
      \<and> generateSchema rejectingEnv [samplePage, samplePost, samplePage]
            \<lparr>registered = [], console = []\<rparr> =
          (Inl \<lparr>error_name = ''Error'',
                message = ''Unable to create schema for Contentful Content Type Blog Post:''
                   @ [CHR 0x0A] @ ''Type is already defined'',
                stack = Some (''Error: Unable to create schema for Contentful Content Type Blog Post:''
                   @ [CHR 0x0A] @ ''Type is already defined'')\<rparr>,
           st1\<lparr>console := [''Error: Unable to create schema for Contentful Content Type Blog Post:''
                   @ [CHR 0x0A] @ ''Type is already defined'']\<rparr>)"
  proof -
    let ?st = "\<lparr>registered = [], console = []\<rparr>"
    let ?err = "\<lparr>error_name = ''Error'', message = ''Type is already defined'', stack = None\<rparr>"
    from rejectingEnv_page [of ?st] obtain st1 where
      st1: "generateSchema rejectingEnv [samplePage] ?st = (Inr (), st1)" and c: "console st1 = []"
      by auto
    have b: "\<exists>t. buildContentType rejectingEnv samplePost = Inr t
        \<and> createTypesError rejectingEnv (registered st1) [t] = Some ?err"
      by (simp add: rejectingEnv_builds samplePost_builds) (simp add: rejectingEnv_def)
    from generateSchema_aborts_on_error [OF st1 disjI2 [OF b], of "[samplePage]"] c
    have "generateSchema rejectingEnv [samplePage, samplePost, samplePage] ?st =
            (Inl \<lparr>error_name = ''Error'',
                  message = ''Unable to create schema for Contentful Content Type Blog Post:''
                     @ [CHR 0x0A] @ ''Type is already defined'',
                  stack = Some (''Error: Unable to create schema for Contentful Content Type Blog Post:''
                     @ [CHR 0x0A] @ ''Type is already defined'')\<rparr>,
             st1\<lparr>console := [''Error: Unable to create schema for Contentful Content Type Blog Post:''
                     @ [CHR 0x0A] @ ''Type is already defined'']\<rparr>)"
      by (simp add: Let_def errorToString_def samplePost_def)
    with st1 show ?thesis by blast
  qed
qed

subsection \<open>Type inference\<close>

text \<open>
  C6, as stated, fails: \<open>ContentfulRichTextAssets\<close> is declared by every run that the host
  does not stop, is neither \<open>ContentfulReference\<close> nor \<open>ContentfulContentType\<close>, and has no
  \<open>dontInfer\<close> extension.
\<close>

theorem richTextAssets_without_dontInfer:
  "ContentfulRichTextAssets
      \<in> set (registered (snd (generateSchema sampleEnv [] \<lparr>registered = [], console = []\<rparr>)))
   \<and> type_name ContentfulRichTextAssets \<noteq> ''ContentfulReference''
   \<and> type_name ContentfulRichTextAssets \<noteq> ''ContentfulContentType''
   \<and> \<not> dontInfer ContentfulRichTextAssets"
proof -
  have "ContentfulRichTextAssets \<in> set (fixedTypes sampleEnv)"
    by (simp add: fixedTypes_def)
  moreover have "type_name ContentfulRichTextAssets = ''ContentfulRichTextAssets''"
    "type_extensions ContentfulRichTextAssets = None"
    by (simp_all add: ContentfulRichTextAssets_def)
  ultimately show ?thesis
    by (simp add: generateSchema_accepting_eq [OF sampleEnv_accepting] dontInfer_def)
qed

text \<open>
  C6, amended. When the host functions do not throw, the declarations registered by
  \<^verbatim>\<open>generateSchema\<close> are the thirteen fixed ones, the asset type being passed through
  \<^verbatim>\<open>addRemoteFilePolyfillInterface\<close>, followed by the object types of the content types; in
  any case they are an initial part of that sequence, which is complete as soon as one
  content type is registered or the run returns normally. Every object type of a content type
  carries \<open>dontInfer\<close>. Of the fixed declarations, as this file writes them, exactly six do
  not: \<open>ContentfulReference\<close>, \<open>ContentfulContentType\<close>, \<open>ContentfulAsset\<close>,
  \<open>ContentfulRichTextAssets\<close>, \<open>ContentfulRichTextEntries\<close> and \<open>ContentfulRichTextLinks\<close>.
\<close>

theorem generateSchema_dontInfer:
  assumes "generateSchema env cts st = (r, st')"
  shows "((\<forall>spec. buildObjectTypeError env spec = None)
            \<and> (\<forall>accepted types. createTypesError env accepted types = None) \<longrightarrow>
          (\<exists>ts. registered st' = registered st
             @ [ContentfulReference, ContentfulContentType, ContentfulSys, ContentfulEntry,
                ContentfulMetadata, ContentfulTag]
             @ addRemoteFilePolyfillInterface env (ContentfulAsset env)
             @ [ContentfulRichTextAssets, ContentfulRichTextEntries, ContentfulRichTextLinks,
                ContentfulRichText, ContentfulLocation, ContentfulText]
             @ ts
           \<and> (\<forall>t \<in> set ts. dontInfer t)))
       \<and> (\<exists>ds rest ts. registered st' = registered st @ ds @ ts
             \<and> [ContentfulReference, ContentfulContentType, ContentfulSys, ContentfulEntry,
                ContentfulMetadata, ContentfulTag]
               @ addRemoteFilePolyfillInterface env (ContentfulAsset env)
               @ [ContentfulRichTextAssets, ContentfulRichTextEntries, ContentfulRichTextLinks,
                  ContentfulRichText, ContentfulLocation, ContentfulText]
               = ds @ rest
             \<and> (ts \<noteq> [] \<or> r = Inr () \<longrightarrow> rest = [])
             \<and> (\<forall>t \<in> set ts. dontInfer t))
       \<and> (\<forall>t \<in> set [ContentfulReference, ContentfulContentType, ContentfulSys,
                  ContentfulEntry, ContentfulMetadata, ContentfulTag, ContentfulAsset env,
                  ContentfulRichTextAssets, ContentfulRichTextEntries, ContentfulRichTextLinks,
                  ContentfulRichText, ContentfulLocation, ContentfulText].
                dontInfer t \<longleftrightarrow>
                  type_name t \<notin> {''ContentfulReference'', ''ContentfulContentType'',
                    ''ContentfulAsset'', ''ContentfulRichTextAssets'',
                    ''ContentfulRichTextEntries'', ''ContentfulRichTextLinks''})"
proof (intro conjI impI)
  assume a: "(\<forall>spec. buildObjectTypeError env spec = None)
            \<and> (\<forall>accepted types. createTypesError env accepted types = None)"
  from generateSchema_accepting [OF a [THEN conjunct1] a [THEN conjunct2] assms] obtain ts where
    ts: "registered st' = registered st @ fixedTypes env @ ts"
      "list_all2 (\<lambda>item t. buildContentType env item = Inr t) (take (length ts) cts) ts"
    by blast
  have "\<forall>t \<in> set ts. dontInfer t"
  proof
    fix t assume "t \<in> set ts"
    from list_all2_rightD [OF ts(2) this] obtain item where "buildContentType env item = Inr t"
      by blast
    then show "dontInfer t" by (rule buildContentType_dontInfer)
  qed
  with ts(1) show "\<exists>ts. registered st' = registered st
             @ [ContentfulReference, ContentfulContentType, ContentfulSys, ContentfulEntry,
                ContentfulMetadata, ContentfulTag]
             @ addRemoteFilePolyfillInterface env (ContentfulAsset env)
             @ [ContentfulRichTextAssets, ContentfulRichTextEntries, ContentfulRichTextLinks,
                ContentfulRichText, ContentfulLocation, ContentfulText]
             @ ts
           \<and> (\<forall>t \<in> set ts. dontInfer t)"
    unfolding fixedTypes_def by (intro exI [of _ ts]) simp
next
  from generateSchema_registered [OF assms] obtain ds rest ts where
    ts: "registered st' = registered st @ ds @ ts" "fixedTypes env = ds @ rest"
      "ts \<noteq> [] \<longrightarrow> rest = []"
      "list_all2 (\<lambda>item t. buildContentType env item = Inr t) (take (length ts) cts) ts"
      "r = Inr () \<longrightarrow> rest = [] \<and> length ts = length cts"
    by blast
  have "\<forall>t \<in> set ts. dontInfer t"
  proof
    fix t assume "t \<in> set ts"
    from list_all2_rightD [OF ts(4) this] obtain item where "buildContentType env item = Inr t"
      by blast
    then show "dontInfer t" by (rule buildContentType_dontInfer)
  qed
  with ts(1,2,3,5) show "\<exists>ds rest ts. registered st' = registered st @ ds @ ts
             \<and> [ContentfulReference, ContentfulContentType, ContentfulSys, ContentfulEntry,
                ContentfulMetadata, ContentfulTag]
               @ addRemoteFilePolyfillInterface env (ContentfulAsset env)
               @ [ContentfulRichTextAssets, ContentfulRichTextEntries, ContentfulRichTextLinks,
                  ContentfulRichText, ContentfulLocation, ContentfulText]
               = ds @ rest
             \<and> (ts \<noteq> [] \<or> r = Inr () \<longrightarrow> rest = [])
             \<and> (\<forall>t \<in> set ts. dontInfer t)"
    unfolding fixedTypes_def by (intro exI [of _ ds] exI [of _ rest] exI [of _ ts]) auto
next
  show "\<forall>t \<in> set [ContentfulReference, ContentfulContentType, ContentfulSys,
                  ContentfulEntry, ContentfulMetadata, ContentfulTag, ContentfulAsset env,
                  ContentfulRichTextAssets, ContentfulRichTextEntries, ContentfulRichTextLinks,
                  ContentfulRichText, ContentfulLocation, ContentfulText].
                dontInfer t \<longleftrightarrow>
                  type_name t \<notin> {''ContentfulReference'', ''ContentfulContentType'',
                    ''ContentfulAsset'', ''ContentfulRichTextAssets'',
                    ''ContentfulRichTextEntries'', ''ContentfulRichTextLinks''}"
    by (simp add: fixed_dontInfer fixed_not_dontInfer fixed_names)
qed

theorem generateSchema_dontInfer_witness:
  "\<exists>ts. registered (snd (generateSchema sampleEnv [samplePost] \<lparr>registered = [], console = []\<rparr>)) =
          [ContentfulReference, ContentfulContentType, ContentfulSys, ContentfulEntry,
           ContentfulMetadata, ContentfulTag, ContentfulAsset sampleEnv,
           ContentfulRichTextAssets, ContentfulRichTextEntries, ContentfulRichTextLinks,
           ContentfulRichText, ContentfulLocation, ContentfulText] @ ts
        \<and> (\<forall>t \<in> set ts. dontInfer t)
        \<and> dontInfer ContentfulRichText \<and> \<not> dontInfer ContentfulRichTextLinks
        \<and> \<not> dontInfer (ContentfulAsset sampleEnv)"
proof -
  let ?run = "generateSchema sampleEnv [samplePost] \<lparr>registered = [], console = []\<rparr>"
  have g: "?run = (fst ?run, snd ?run)" by simp
  have p: "addRemoteFilePolyfillInterface sampleEnv (ContentfulAsset sampleEnv)
      = [ContentfulAsset sampleEnv]"
    by (simp add: sampleEnv_def)
  have h: "(\<forall>spec. buildObjectTypeError sampleEnv spec = None)
            \<and> (\<forall>accepted types. createTypesError sampleEnv accepted types = None)"
    by (simp add: sampleEnv_def)
  note w = generateSchema_dontInfer [OF g]
  from w [THEN conjunct1, rule_format, OF h] obtain ts where
    a: "registered (snd ?run) = registered \<lparr>registered = [], console = []\<rparr>
             @ [ContentfulReference, ContentfulContentType, ContentfulSys, ContentfulEntry,
                ContentfulMetadata, ContentfulTag]
             @ addRemoteFilePolyfillInterface sampleEnv (ContentfulAsset sampleEnv)
             @ [ContentfulRichTextAssets, ContentfulRichTextEntries, ContentfulRichTextLinks,
                ContentfulRichText, ContentfulLocation, ContentfulText]
             @ ts"
    and b: "\<forall>t \<in> set ts. dontInfer t"
    by blast
  note c = w [THEN conjunct2, THEN conjunct2]
  from a have a': "registered (snd ?run) =
          [ContentfulReference, ContentfulContentType, ContentfulSys, ContentfulEntry,
           ContentfulMetadata, ContentfulTag, ContentfulAsset sampleEnv,
           ContentfulRichTextAssets, ContentfulRichTextEntries, ContentfulRichTextLinks,
           ContentfulRichText, ContentfulLocation, ContentfulText] @ ts"
    unfolding p by simp
  have "dontInfer ContentfulRichText"
    using c [rule_format, of ContentfulRichText] by (simp add: fixed_names)
  moreover have "\<not> dontInfer ContentfulRichTextLinks"
    using c [rule_format, of ContentfulRichTextLinks] by (simp add: fixed_names)
  moreover have "\<not> dontInfer (ContentfulAsset sampleEnv)"
    using c [rule_format, of "ContentfulAsset sampleEnv"] by (simp add: fixed_names)
  ultimately show ?thesis using a' b by blast
qed

subsection \<open>Rich-text links\<close>

lemma sys_id_cases:
  "(case sy of None \<Rightarrow> False
    | Some s \<Rightarrow> (case node_sys_id s of None \<Rightarrow> False | Some i \<Rightarrow> Q s i))
   \<longleftrightarrow> (\<exists>s i. sy = Some s \<and> node_sys_id s = Some i \<and> Q s i)"
  by (cases sy) (auto split: option.splits)

text \<open>
  C8, as stated, fails: a stored asset owned by the plugin whose \<^verbatim>\<open>sys.id\<close> is the empty
  string, with the empty string among the extracted ids, meets the three conditions and is
  not returned, because \<^verbatim>\<open>node?.sys?.id\<close> is not truthy.
\<close>

theorem empty_id_asset_not_resolved:
  "emptyIdAsset \<in> set [emptyIdAsset]
   \<and> owner emptyIdAsset = ''gatsby-source-contentful''
   \<and> map_option node_sys_type (sys emptyIdAsset) = Some (Some ''Asset'')
   \<and> map_option node_sys_id (sys emptyIdAsset) = Some (Some '''')
   \<and> '''' \<in> set (map link_id (Asset (emptyIdLinks () ''embedded-asset-block'')))
   \<and> makeRichTextLinksResolver emptyIdLinks ''embedded-asset-block'' ''Asset'' () [emptyIdAsset]
       = Inr []"
  by (simp add: emptyIdAsset_def emptyIdLinks_def makeRichTextLinksResolver_def entityLinksOf_def)

text \<open>
  C8, amended. The resolver made for \<open>embedded-asset-block\<close> and \<open>Asset\<close> returns the stored
  nodes, in the order of the store, that are owned by \<open>gatsby-source-contentful\<close>, have a
  \<^verbatim>\<open>sys\<close> with a non-empty \<^verbatim>\<open>id\<close> and the \<^verbatim>\<open>type\<close> \<open>Asset\<close>, and whose id is among the ids
  extracted from the document for that category; it returns no other node. It is the
  resolve function of the field \<open>block\<close> of \<open>ContentfulRichTextAssets\<close>.
\<close>

theorem makeRichTextLinksResolver_embedded_asset_block:
  "makeRichTextLinksResolver getRichTextEntityLinks ''embedded-asset-block'' ''Asset'' source allNodes =
     Inr (filter (\<lambda>node.
            owner node = ''gatsby-source-contentful''
            \<and> (\<exists>s i. sys node = Some s \<and> node_sys_id s = Some i \<and> i \<noteq> []
                  \<and> node_sys_type s = Some ''Asset''
                  \<and> i \<in> link_id ` set (Asset (getRichTextEntityLinks source ''embedded-asset-block''))))
          allNodes)
   \<and> (\<exists>c. type_fields ContentfulRichTextAssets ''block'' = Some c
          \<and> resolve c = Some (RichTextLinksResolver ''embedded-asset-block'' ''Asset''))
   \<and> runResolver getRichTextEntityLinks (RichTextLinksResolver ''embedded-asset-block'' ''Asset'')
        source allNodes =
       map_sum id Nodes
         (makeRichTextLinksResolver getRichTextEntityLinks ''embedded-asset-block'' ''Asset''
            source allNodes)"
proof (intro conjI)
  show "makeRichTextLinksResolver getRichTextEntityLinks ''embedded-asset-block'' ''Asset'' source allNodes =
     Inr (filter (\<lambda>node.
            owner node = ''gatsby-source-contentful''
            \<and> (\<exists>s i. sys node = Some s \<and> node_sys_id s = Some i \<and> i \<noteq> []
                  \<and> node_sys_type s = Some ''Asset''
                  \<and> i \<in> link_id ` set (Asset (getRichTextEntityLinks source ''embedded-asset-block''))))
          allNodes)"
  proof -
    have "entityLinksOf (getRichTextEntityLinks source ''embedded-asset-block'') ''Asset''
        = Some (Asset (getRichTextEntityLinks source ''embedded-asset-block''))"
      by (simp add: entityLinksOf_def)
    then show ?thesis
      unfolding makeRichTextLinksResolver_def Let_def sys_id_cases by simp
  qed
next
  show "\<exists>c. type_fields ContentfulRichTextAssets ''block'' = Some c
          \<and> resolve c = Some (RichTextLinksResolver ''embedded-asset-block'' ''Asset'')"
    by (simp add: ContentfulRichTextAssets_def)
next
  show "runResolver getRichTextEntityLinks (RichTextLinksResolver ''embedded-asset-block'' ''Asset'')
        source allNodes =
       map_sum id Nodes
         (makeRichTextLinksResolver getRichTextEntityLinks ''embedded-asset-block'' ''Asset''
            source allNodes)"
    by (simp add: runResolver_def)
qed

theorem makeRichTextLinksResolver_embedded_asset_block_witness:
  "makeRichTextLinksResolver sampleLinks ''embedded-asset-block'' ''Asset'' () sampleStore =
     Inr [\<lparr>owner = ''gatsby-source-contentful'',
           sys = Some \<lparr>node_sys_id = Some ''a1'', node_sys_type = Some ''Asset''\<rparr>\<rparr>]"
  using makeRichTextLinksResolver_embedded_asset_block [of sampleLinks "()" sampleStore]
  by (simp add: sampleLinks_def sampleStore_def)

end
